(* ===== verification/Prelude.thy ===== *)
theory Prelude
  imports Main "HOL-Library.Word" "HOL-Library.Sublist"
begin

text \<open>
  Shared vocabulary of the development: the JavaScript built-ins the sources call on
  strings and arrays (\<open>String.prototype.trim\<close>, \<open>Array.prototype.join\<close>, the falsiness
  of a string in \<open>||\<close>), the error object thrown by \<open>new Error(msg)\<close>, and the
  byte buffers handed from the browser's \<open>File\<close> to the PDF library. JavaScript strings
  are modelled as HOL strings (lists of 8-bit characters); the whitespace that \<open>trim\<close>
  removes is restricted to the code points below 256 that ECMAScript counts as
  \<open>WhiteSpace\<close> or \<open>LineTerminator\<close>. The lemmas about these built-ins are collected in
  \<open>js_simps\<close>, used by the component theories.
\<close>

named_theorems js_simps "facts about the modelled JavaScript built-ins"

type_synonym bytes = "8 word list"

text \<open>\<open>new Error(message)\<close>: the only error value the sources construct.\<close>

datatype js_error = Error string

subsection \<open>String.prototype.trim\<close>

definition js_is_space :: "char \<Rightarrow> bool" where
  "js_is_space c \<longleftrightarrow> of_char c \<in> {9::nat, 10, 11, 12, 13, 32, 160}"

definition js_trim :: "string \<Rightarrow> string" where
  "js_trim s = rev (dropWhile js_is_space (rev (dropWhile js_is_space s)))"

text \<open>A string that \<open>trim\<close> leaves unchanged at both ends.\<close>

definition js_trimmed :: "string \<Rightarrow> bool" where
  "js_trimmed s \<longleftrightarrow> s = [] \<or> (\<not> js_is_space (hd s) \<and> \<not> js_is_space (last s))"

subsection \<open>Array.prototype.join\<close>

text \<open>
  \<open>join\<close> converts each element to a string, except \<open>undefined\<close> and \<open>null\<close>, which
  become the empty string; \<open>None\<close> stands for \<open>undefined\<close>.
\<close>

definition js_str :: "string option \<Rightarrow> string" where
  "js_str v = (case v of None \<Rightarrow> [] | Some s \<Rightarrow> s)"

fun js_join :: "string \<Rightarrow> string option list \<Rightarrow> string" where
  "js_join sep [] = []"
| "js_join sep [x] = js_str x"
| "js_join sep (x # y # zs) = js_str x @ sep @ js_join sep (y # zs)"

text \<open>A string is falsy in \<open>a || b\<close> exactly when it is empty.\<close>

definition js_or_str :: "string \<Rightarrow> string \<Rightarrow> string" where
  "js_or_str a b = (if a = [] then b else a)"

subsection \<open>Lemmas on the built-ins\<close>

lemma js_space_chars [js_simps]:
  "js_is_space (CHR '' '')" "js_is_space (CHR 0x0A)" "js_is_space (CHR 0x09)"
  by (simp_all add: js_is_space_def)

lemma js_trim_Nil [simp, js_simps]: "js_trim [] = []"
  by (simp add: js_trim_def)

lemma js_trim_snoc_space [js_simps]:
  assumes "js_is_space c"
  shows "js_trim (s @ [c]) = js_trim s"
proof (cases "\<forall>x\<in>set s. js_is_space x")
  case True
  then have "dropWhile js_is_space s = []" by simp
  moreover from True assms have "dropWhile js_is_space (s @ [c]) = []"
    unfolding dropWhile_eq_Nil_conv by auto
  ultimately show ?thesis by (simp add: js_trim_def del: dropWhile_eq_Nil_conv)
next
  case False
  then obtain x where "x \<in> set s" and "\<not> js_is_space x" by blast
  then have "dropWhile js_is_space (s @ [c]) = dropWhile js_is_space s @ [c]"
    by (rule dropWhile_append1)
  with assms show ?thesis by (simp add: js_trim_def)
qed

lemma js_trim_append_spaces [js_simps]:
  "\<forall>c\<in>set w. js_is_space c \<Longrightarrow> js_trim (s @ w) = js_trim s"
proof (induction w rule: rev_induct)
  case Nil
  then show ?case by simp
next
  case (snoc c w)
  then have w: "\<forall>x\<in>set w. js_is_space x" and c: "js_is_space c" by simp_all
  have "js_trim ((s @ w) @ [c]) = js_trim (s @ w)"
    using c by (rule js_trim_snoc_space)
  also have "\<dots> = js_trim s" using w by (rule snoc.IH)
  finally show ?case by simp
qed

lemma js_trim_space_suffix [simp, js_simps]: "js_trim (s @ '' '') = js_trim s"
  by (rule js_trim_snoc_space) (simp add: js_is_space_def)

lemma dropWhile_last_nonempty:
  "dropWhile P xs \<noteq> [] \<Longrightarrow> last (dropWhile P xs) = last xs"
  by (metis dropWhile_last hd_dropWhile hd_in_set set_dropWhileD)

lemma js_trim_trimmed [js_simps]: "js_trimmed (js_trim s)"
proof -
  define t where "t = dropWhile js_is_space s"
  define u where "u = dropWhile js_is_space (rev t)"
  have trim: "js_trim s = rev u" by (simp add: js_trim_def t_def u_def)
  show ?thesis
  proof (cases "u = []")
    case True
    then show ?thesis by (simp add: trim js_trimmed_def)
  next
    case False
    then have t_ne: "t \<noteq> []" by (auto simp: u_def)
    have last_u: "\<not> js_is_space (hd u)"
      using False by (simp add: u_def hd_dropWhile)
    have "last u = last (rev t)"
      using False by (simp add: u_def dropWhile_last_nonempty)
    also have "\<dots> = hd t" using t_ne by (simp add: last_rev)
    finally have "\<not> js_is_space (last u)"
      using t_ne by (simp add: t_def hd_dropWhile)
    with last_u False show ?thesis
      by (simp add: trim js_trimmed_def hd_rev last_rev)
  qed
qed

lemma js_trim_all_spaces [js_simps]: "\<forall>c\<in>set s. js_is_space c \<Longrightarrow> js_trim s = []"
  by (auto simp: js_trim_def dest: set_dropWhileD)

lemma set_js_trim [js_simps]: "set (js_trim s) \<subseteq> set s"
  unfolding js_trim_def by (auto dest!: set_dropWhileD)

lemma js_join_chars [js_simps]:
  "\<forall>x\<in>set xs. \<forall>c\<in>set (js_str x). P c \<Longrightarrow> \<forall>c\<in>set sep. P c \<Longrightarrow>
     \<forall>c\<in>set (js_join sep xs). P c"
  by (induction sep xs rule: js_join.induct) auto

lemma js_join_append [js_simps]:
  "xs \<noteq> [] \<Longrightarrow> ys \<noteq> [] \<Longrightarrow> js_join sep (xs @ ys) = js_join sep xs @ sep @ js_join sep ys"
proof (induction sep xs rule: js_join.induct)
  case (2 sep x)
  then show ?case by (cases ys) simp_all
qed simp_all

lemma js_join_sublist:
  "zs \<noteq> [] \<Longrightarrow> sublist (js_join sep zs) (js_join sep (xs @ zs @ ys))"
proof -
  assume zs: "zs \<noteq> []"
  have "sublist (js_join sep zs) (js_join sep (zs @ ys))"
    using zs by (cases "ys = []") (simp_all add: js_join_append)
  moreover have "sublist (js_join sep (zs @ ys)) (js_join sep (xs @ zs @ ys))"
    using zs by (cases "xs = []")
      (simp_all add: js_join_append, metis append.assoc sublist_append_leftI)
  ultimately show ?thesis by (rule sublist_order.order_trans)
qed

lemma js_join_Some_Cons [js_simps]:
  "ts \<noteq> [] \<Longrightarrow> js_join sep (map Some (t # ts)) = t @ sep @ js_join sep (map Some ts)"
  by (cases ts) (simp_all add: js_str_def)

text \<open>
  Appending a separator after every piece, as a loop \<open>acc += piece + sep\<close> does, is
  \<open>join\<close> followed by one trailing separator.
\<close>

lemma concat_map_suffix_join [js_simps]:
  "concat (map (\<lambda>t. t @ sep) ts) = (if ts = [] then [] else js_join sep (map Some ts) @ sep)"
proof (induction ts)
  case Nil
  then show ?case by simp
next
  case (Cons t ts)
  then show ?case by (cases ts) (simp_all add: js_str_def)
qed

end
