(* ===== verification/PdfExtract.thy ===== *)
theory PdfExtract
  imports Prelude
begin

text \<open>
  The text extractor, \<open>extractTextFromPDF\<close> of \<open>src/src/utils/pdfUtils.ts\<close>. The
  PDF library (pdf.js) is an external collaborator: a document is the list of results of
  \<open>getPage(i).getTextContent()\<close> for \<open>i = 1 .. numPages\<close>, each either the page's text
  items or \<open>None\<close> when one of the two promises rejects; \<open>getDocument({data}).promise\<close>
  is a parameter of type \<open>pdf_library\<close>, \<open>None\<close> when the buffer is not a PDF. The
  \<open>for\<close> loop is \<open>extract_pages\<close>, a recursion on the page index with a measure; its
  equivalence with the reference reading of the code (trim of the page texts joined by a
  space) is \<open>extract_refines_spec\<close>.
\<close>

subsection \<open>The library's data\<close>

text \<open>
  pdf.js returns two kinds of items in \<open>textContent.items\<close>: \<open>TextItem\<close>, with a field
  \<open>str\<close>, and \<open>TextMarkedContent\<close> (a marker whose \<open>type\<close> is
  \<open>beginMarkedContent\<close>, \<open>beginMarkedContentProps\<close> or \<open>endMarkedContent\<close>), which has no
  \<open>str\<close>, so that \<open>item.str\<close> is \<open>undefined\<close> for it.
\<close>

datatype text_item = TextItem string | TextMarkedContent string

definition item_str :: "text_item \<Rightarrow> string option" where
  "item_str it = (case it of TextItem s \<Rightarrow> Some s | TextMarkedContent _ \<Rightarrow> None)"

type_synonym text_content = "text_item list"

record pdf_document =
  doc_pages :: "text_content option list"

definition numPages :: "pdf_document \<Rightarrow> nat" where
  "numPages pdf = length (doc_pages pdf)"

text \<open>\<open>pdf.getPage(i)\<close> followed by \<open>page.getTextContent()\<close>; pages count from 1.\<close>

definition getPage :: "pdf_document \<Rightarrow> nat \<Rightarrow> text_content option" where
  "getPage pdf i = (if 1 \<le> i \<and> i \<le> numPages pdf then doc_pages pdf ! (i - 1) else None)"

type_synonym pdf_library = "bytes \<Rightarrow> pdf_document option"

subsection \<open>extractTextFromPDF\<close>

definition page_text :: "text_content \<Rightarrow> string" where
  "page_text items = js_join '' '' (map item_str items)"

definition extract_error :: js_error where
  "extract_error = Error ''Failed to extract text from PDF''"

text \<open>
  The loop \<open>for (let i = 1; i <= pdf.numPages; i++) { ... fullText += pageText + ' ' }\<close>;
  \<open>None\<close> is a rejected \<open>getPage\<close> or \<open>getTextContent\<close> promise, which leaves the loop
  for the \<open>catch\<close> block.
\<close>

function extract_pages :: "pdf_document \<Rightarrow> nat \<Rightarrow> string \<Rightarrow> string option" where
  "extract_pages pdf i fullText =
     (if i \<le> numPages pdf then
        (case getPage pdf i of
           None \<Rightarrow> None
         | Some textContent \<Rightarrow>
             extract_pages pdf (Suc i) (fullText @ page_text textContent @ '' ''))
      else Some fullText)"
  by pat_completeness auto
termination
  by (relation "measure (\<lambda>(pdf, i, _). Suc (numPages pdf) - i)") auto

declare extract_pages.simps [simp del]

definition extractTextFromPDF :: "pdf_library \<Rightarrow> bytes \<Rightarrow> js_error + string" where
  "extractTextFromPDF getDocument pdfBuffer =
     (case getDocument pdfBuffer of
        None \<Rightarrow> Inl extract_error
      | Some pdf \<Rightarrow>
          (case extract_pages pdf 1 [] of
             None \<Rightarrow> Inl extract_error
           | Some fullText \<Rightarrow> Inr (js_trim fullText)))"

subsection \<open>Reference specification\<close>

text \<open>
  What the extractor promises: every page's items joined by one space, the pages joined
  by one space, the ends trimmed; any page that fails to load fails the whole call.
\<close>

definition extract_spec :: "pdf_document \<Rightarrow> js_error + string" where
  "extract_spec pdf =
     (case those (doc_pages pdf) of
        None \<Rightarrow> Inl extract_error
      | Some pages \<Rightarrow> Inr (js_trim (js_join '' '' (map Some (map page_text pages)))))"

subsection \<open>The loop\<close>

lemma those_None_iff: "those xs = None \<longleftrightarrow> None \<in> set xs"
  by (induction xs) (auto split: option.splits)

lemma those_Some_no_None: "those xs = Some ys \<Longrightarrow> None \<notin> set xs"
  using those_None_iff [of xs] by auto

text \<open>
  The loop from page \<open>i\<close> on: it succeeds exactly when every remaining page loads, and
  then appends each page's text followed by a space to the accumulator.
\<close>

lemma extract_pages_eq:
  "1 \<le> i \<Longrightarrow> extract_pages pdf i acc =
     map_option (\<lambda>ps. acc @ concat (map (\<lambda>c. page_text c @ '' '') ps))
       (those (drop (i - 1) (doc_pages pdf)))"
proof (induction pdf i acc rule: extract_pages.induct)
  case (1 pdf i acc)
  from "1.prems" obtain j where i: "i = Suc j" by (cases i) auto
  show ?case
  proof (cases "i \<le> numPages pdf")
    case True
    then have drop: "drop j (doc_pages pdf) = doc_pages pdf ! j # drop (Suc j) (doc_pages pdf)"
      by (simp add: i numPages_def Cons_nth_drop_Suc)
    have page: "getPage pdf (Suc j) = doc_pages pdf ! j"
      using True by (simp add: i getPage_def)
    show ?thesis
    proof (cases "doc_pages pdf ! j")
      case None
      with True show ?thesis
        by (simp add: extract_pages.simps [of pdf "Suc j" acc] page drop i)
    next
      case (Some c)
      with True page "1.IH" [OF True, of c] show ?thesis
        by (simp add: extract_pages.simps [of pdf "Suc j" acc] drop i option.map_comp comp_def)
    qed
  next
    case False
    then show ?thesis
      by (simp add: extract_pages.simps [of pdf "Suc j" acc] numPages_def i)
  qed
qed

lemma extract_pages_from_first:
  "extract_pages pdf (Suc 0) [] =
     map_option (\<lambda>ps. concat (map (\<lambda>c. page_text c @ '' '') ps)) (those (doc_pages pdf))"
  using extract_pages_eq [of "Suc 0" pdf "[]"] by simp

lemma js_trim_page_loop:
  "js_trim (concat (map (\<lambda>c. page_text c @ '' '') ps)) =
     js_trim (js_join '' '' (map Some (map page_text ps)))"
proof -
  have "concat (map (\<lambda>c. page_text c @ '' '') ps) = concat (map (\<lambda>t. t @ '' '') (map page_text ps))"
    by (simp add: comp_def)
  then show ?thesis by (simp only: concat_map_suffix_join) simp
qed

lemmas extract_unfold = extractTextFromPDF_def extract_pages_from_first

text \<open>Evaluation of the extractor on a concrete document, page by page.\<close>

lemmas extract_eval = extractTextFromPDF_def extract_pages.simps getPage_def numPages_def

text \<open>Pages whose items carry only white space contribute only white space.\<close>

lemma page_texts_blank:
  assumes "\<forall>items\<in>set pages. \<forall>it\<in>set items. \<forall>c\<in>set (js_str (item_str it)). js_is_space c"
  shows "\<forall>c\<in>set (concat (map (\<lambda>c. page_text c @ '' '') pages)). js_is_space c"
proof -
  have "\<forall>c\<in>set (page_text items). js_is_space c" if "items \<in> set pages" for items
    using assms that unfolding page_text_def
    by (intro js_join_chars) (auto simp: js_is_space_def)
  then show ?thesis by (auto simp: js_is_space_def)
qed

subsection \<open>Properties of the extractor\<close>

text \<open>
  C4. The loop computes what the specification says: when the library opens the buffer,
  the result is the trimmed join, by single spaces, of the pages' texts in page order (each
  page's items joined by a space), or the extraction error when some page fails; a buffer
  the library cannot open gives the extraction error.
\<close>

theorem extract_refines_spec:
  "extractTextFromPDF getDocument buf =
     (case getDocument buf of None \<Rightarrow> Inl extract_error | Some pdf \<Rightarrow> extract_spec pdf)"
  by (simp add: extract_unfold extract_spec_def js_trim_page_loop
      split: option.splits)

text \<open>
  C8. The extractor fails exactly when the buffer cannot be opened or some page's text
  cannot be read, and it then fails with the one error it constructs.
\<close>

theorem extract_error_iff:
  "extractTextFromPDF getDocument buf = Inl e \<longleftrightarrow>
     e = extract_error \<and>
     (case getDocument buf of None \<Rightarrow> True | Some pdf \<Rightarrow> None \<in> set (doc_pages pdf))"
  by (auto simp: extract_unfold those_None_iff dest: those_Some_no_None split: option.splits)

text \<open>
  C9. A successful extraction has no whitespace at either end, whatever the pages hold.
\<close>

theorem extract_result_trimmed:
  "extractTextFromPDF getDocument buf = Inr text \<Longrightarrow> js_trimmed text"
  by (auto simp: extractTextFromPDF_def js_trim_trimmed split: option.splits)

theorem extract_result_trimmed_witness:
  "extractTextFromPDF (\<lambda>_. Some \<lparr>doc_pages = [Some [TextItem '' sky '']]\<rparr>) [] = Inr ''sky'' \<and>
   js_trimmed ''sky''"
proof -
  have run: "extractTextFromPDF (\<lambda>_. Some \<lparr>doc_pages = [Some [TextItem '' sky '']]\<rparr>) [] = Inr ''sky''"
    by (simp add: extract_unfold page_text_def item_str_def js_str_def js_trim_def js_is_space_def)
  show ?thesis using run extract_result_trimmed [OF run] by simp
qed

lemma those_map_Some [simp]: "those (map Some ys) = Some ys"
  by (induction ys) auto

text \<open>
  C16. A document whose pages all load but carry no visible text (scanned images, or only
  whitespace and marked-content items) is extracted successfully, to the empty string.
\<close>

theorem extract_textless_empty:
  assumes "getDocument buf = Some pdf" and "doc_pages pdf = map Some pages"
    and "\<forall>items\<in>set pages. \<forall>it\<in>set items. \<forall>c\<in>set (js_str (item_str it)). js_is_space c"
  shows "extractTextFromPDF getDocument buf = Inr []"
  using assms(1,2) page_texts_blank [OF assms(3)]
  by (simp add: extract_unfold js_trim_all_spaces)

theorem extract_textless_empty_witness:
  "(\<lambda>_. Some \<lparr>doc_pages = [Some [TextItem '' '']]\<rparr>) [] = Some \<lparr>doc_pages = [Some [TextItem '' '']]\<rparr> \<and>
   doc_pages \<lparr>doc_pages = [Some [TextItem '' '']]\<rparr> = map Some [[TextItem '' '']] \<and>
   js_is_space (CHR '' '') \<and>
   extractTextFromPDF (\<lambda>_. Some \<lparr>doc_pages = [Some [TextItem '' '']]\<rparr>) [] = Inr []"
proof -
  have sp: "\<forall>items\<in>set [[TextItem '' '']]. \<forall>it\<in>set items. \<forall>c\<in>set (js_str (item_str it)). js_is_space c"
    by (simp add: item_str_def js_str_def js_is_space_def)
  show ?thesis
    using sp js_space_chars extract_textless_empty [of "\<lambda>_. Some \<lparr>doc_pages = [Some [TextItem '' '']]\<rparr>" "[]"
        "\<lparr>doc_pages = [Some [TextItem '' '']]\<rparr>" "[[TextItem '' '']]"]
    by simp
qed

end
