(* ===== verification/AiAnswer.thy ===== *)
theory AiAnswer
  imports Prelude
begin

text \<open>
  The answer client, \<open>getAnswerFromAI\<close> of \<open>src/src/utils/pdfUtils.ts\<close>, and the
  module-level model object it uses. The remote service is an external collaborator:
  \<open>ai_service\<close> is \<open>generateContent\<close> of a model, whose promise either rejects
  (\<open>Inl\<close>) or gives a response; \<open>response.text()\<close> either throws (\<open>Inl\<close>) or gives
  the generated text. The client closes over the model built at module load, so its
  argument \<open>generate\<close> is the bound method \<open>model.generateContent\<close>
  (\<open>bound_generateContent\<close>). Every path of the \<open>try\<close>/\<open>catch\<close> is a branch of
  \<open>getAnswerFromAI\<close>; none of them raises.
\<close>

subsection \<open>The module-level model\<close>

record ai_model =
  apiKey :: string
  modelName :: string

text \<open>
  \<open>new GoogleGenerativeAI(import.meta.env.VITE_GOOGLE_API_KEY || '')\<close> and
  \<open>getGenerativeModel({ model: 'gemini-pro' })\<close>; \<open>None\<close> is an unset variable.
\<close>

definition genAI_model :: "string option \<Rightarrow> ai_model" where
  "genAI_model env_key = \<lparr>apiKey = js_or_str (js_str env_key) [], modelName = ''gemini-pro''\<rparr>"

datatype gen_response = GenerateContentResponse (response_text: "js_error + string")

type_synonym ai_service = "ai_model \<Rightarrow> string \<Rightarrow> js_error + gen_response"

definition bound_generateContent :: "ai_service \<Rightarrow> string option \<Rightarrow> string \<Rightarrow> js_error + gen_response" where
  "bound_generateContent svc env_key = svc (genAI_model env_key)"

subsection \<open>getAnswerFromAI\<close>

definition fallback_answer :: string where
  "fallback_answer = ''Sorry, I didn't understand your question. Do you want to connect with a live agent?''"

definition nl :: string where
  "nl = [CHR 0x0A]"

text \<open>The template literal of the prompt, with \<open>\n\<close> as \<open>nl\<close>.\<close>

definition ai_prompt :: "string \<Rightarrow> string \<Rightarrow> string" where
  \<open>ai_prompt context question =
     ''Context from PDF: '' @ context @ nl @ nl @ ''Question: '' @ question @ nl @ nl @
     ''Please provide a concise and relevant answer based on the context. If the answer cannot be found in the context, respond with: "Sorry, I didn't understand your question. Do you want to connect with a live agent?"''\<close>

definition getAnswerFromAI ::
  "(string \<Rightarrow> js_error + gen_response) \<Rightarrow> string \<Rightarrow> string \<Rightarrow> string" where
  "getAnswerFromAI generateContent context question =
     (let prompt = ai_prompt context question in
      case generateContent prompt of
        Inl _ \<Rightarrow> fallback_answer
      | Inr response \<Rightarrow>
          (case response_text response of
             Inl _ \<Rightarrow> fallback_answer
           | Inr text \<Rightarrow> js_or_str text fallback_answer))"

text \<open>
  A service as the remote model behaves without a key: it rejects every request made with
  the empty key and answers the others.
\<close>

definition keyless_service :: ai_service where
  "keyless_service m p =
     (if apiKey m = [] then Inl (Error ''API key not valid. Please pass a valid API key.'')
      else Inr (GenerateContentResponse (Inr ''An answer.'')))"

subsection \<open>Properties of the client\<close>

lemma fallback_answer_nonempty [simp]: "fallback_answer \<noteq> []"
  by (simp add: fallback_answer_def)

lemmas getAnswerFromAI_unfold = getAnswerFromAI_def js_or_str_def


text \<open>
  C5. The client always returns text and never the empty string: either the fixed
  fallback sentence, or text that the service's response really carried.
\<close>

theorem getAnswerFromAI_cases:
  "getAnswerFromAI g c q \<noteq> [] \<and>
   (getAnswerFromAI g c q = fallback_answer \<or>
    (\<exists>r. g (ai_prompt c q) = Inr r \<and> response_text r = Inr (getAnswerFromAI g c q)))"
  by (auto simp: getAnswerFromAI_unfold split: sum.splits)

text \<open>
  C6. When the request is rejected or reading the response's text throws, the client
  returns exactly the fallback sentence.
\<close>

theorem getAnswerFromAI_error:
  assumes "g (ai_prompt c q) = Inl e \<or> (g (ai_prompt c q) = Inr r \<and> response_text r = Inl e)"
  shows "getAnswerFromAI g c q = fallback_answer"
  using assms by (auto simp: getAnswerFromAI_unfold)

theorem getAnswerFromAI_error_witness:
  "(\<lambda>_. Inl (Error ''fetch failed'')) (ai_prompt ''doc'' ''q'') = Inl (Error ''fetch failed'') \<and>
   getAnswerFromAI (\<lambda>_. Inl (Error ''fetch failed'')) ''doc'' ''q'' = fallback_answer"
  using getAnswerFromAI_error [of "\<lambda>_. Inl (Error ''fetch failed'')" "''doc''" "''q''"
      "Error ''fetch failed''" "GenerateContentResponse (Inr [])"]
  by simp

text \<open>
  C7. An empty answer is falsy in \<open>text || ...\<close>: the client replaces it by the fallback
  sentence.
\<close>

theorem getAnswerFromAI_empty:
  assumes "g (ai_prompt c q) = Inr r" and "response_text r = Inr []"
  shows "getAnswerFromAI g c q = fallback_answer"
  using assms by (simp add: getAnswerFromAI_unfold)

theorem getAnswerFromAI_empty_witness:
  "(\<lambda>_. Inr (GenerateContentResponse (Inr []))) (ai_prompt ''doc'' ''q'') =
     Inr (GenerateContentResponse (Inr [])) \<and>
   response_text (GenerateContentResponse (Inr [])) = Inr [] \<and>
   getAnswerFromAI (\<lambda>_. Inr (GenerateContentResponse (Inr []))) ''doc'' ''q'' = fallback_answer"
  using getAnswerFromAI_empty [of "\<lambda>_. Inr (GenerateContentResponse (Inr []))" "''doc''" "''q''"
      "GenerateContentResponse (Inr [])"]
  by simp

text \<open>
  C22. A non-empty answer from the service is returned verbatim.
\<close>

theorem getAnswerFromAI_verbatim:
  assumes "g (ai_prompt c q) = Inr r" and "response_text r = Inr t" and "t \<noteq> []"
  shows "getAnswerFromAI g c q = t"
  using assms by (simp add: getAnswerFromAI_unfold)

theorem getAnswerFromAI_verbatim_witness:
  "(\<lambda>_. Inr (GenerateContentResponse (Inr ''Blue.''))) (ai_prompt ''The sky is blue.'' ''What color?'') =
     Inr (GenerateContentResponse (Inr ''Blue.'')) \<and>
   response_text (GenerateContentResponse (Inr ''Blue.'')) = Inr ''Blue.'' \<and> ''Blue.'' \<noteq> [] \<and>
   getAnswerFromAI (\<lambda>_. Inr (GenerateContentResponse (Inr ''Blue.''))) ''The sky is blue.''
     ''What color?'' = ''Blue.''"
  using getAnswerFromAI_verbatim [of "\<lambda>_. Inr (GenerateContentResponse (Inr ''Blue.''))"
      "''The sky is blue.''" "''What color?''" "GenerateContentResponse (Inr ''Blue.'')" "''Blue.''"]
  by simp

text \<open>
  C35. A missing API key is not detected: when \<open>VITE_GOOGLE_API_KEY\<close> is unset or
  empty the model is built with the empty key, and if the service rejects requests without
  a key, every question is answered with the fallback sentence, the same text the app shows
  when the document does not contain the answer.
\<close>

theorem missing_key_always_fallback:
  assumes "\<forall>p. svc \<lparr>apiKey = [], modelName = ''gemini-pro''\<rparr> p = Inl e"
    and "js_str env_key = []"
  shows "getAnswerFromAI (bound_generateContent svc env_key) c q = fallback_answer"
  using assms by (simp add: bound_generateContent_def genAI_model_def js_or_str_def getAnswerFromAI_def)

theorem missing_key_always_fallback_witness:
  "(\<forall>p. keyless_service \<lparr>apiKey = [], modelName = ''gemini-pro''\<rparr> p =
      Inl (Error ''API key not valid. Please pass a valid API key.'')) \<and>
   js_str None = [] \<and>
   getAnswerFromAI (bound_generateContent keyless_service None) ''The sky is blue.'' ''What color?'' =
     fallback_answer \<and>
   getAnswerFromAI (bound_generateContent keyless_service (Some ''k3y'')) ''The sky is blue.'' ''What color?'' =
     ''An answer.''"
proof -
  have svc: "\<forall>p. keyless_service \<lparr>apiKey = [], modelName = ''gemini-pro''\<rparr> p =
      Inl (Error ''API key not valid. Please pass a valid API key.'')"
    by (simp add: keyless_service_def)
  have env: "js_str None = []" by (simp add: js_str_def)
  have key: "getAnswerFromAI (bound_generateContent keyless_service (Some ''k3y'')) ''The sky is blue.''
      ''What color?'' = ''An answer.''"
    by (simp add: bound_generateContent_def genAI_model_def keyless_service_def js_str_def
        js_or_str_def getAnswerFromAI_def)
  show ?thesis
    using missing_key_always_fallback [where svc = keyless_service and env_key = None, OF svc env]
      svc env key by simp
qed
text \<open>
  C21. The prompt does not delimit the context from the question: for every document text
  \<open>c\<close> and all strings \<open>x\<close> and \<open>q\<close>, the question \<open>x\<close>, a blank line, \<open>Question: \<close>,
  \<open>q\<close> asked of \<open>c\<close> gives the same prompt as the question \<open>q\<close> asked of the different
  document text \<open>c\<close>, a blank line, \<open>Question: \<close>, \<open>x\<close>, so the service cannot tell
  the two requests apart.
\<close>

theorem prompt_ambiguous:
  "ai_prompt c (x @ nl @ nl @ ''Question: '' @ q) = ai_prompt (c @ nl @ nl @ ''Question: '' @ x) q \<and>
   c \<noteq> c @ nl @ nl @ ''Question: '' @ x"
  by (simp add: ai_prompt_def nl_def)

text \<open>The client's answer is never empty; the session invariant relies on it.\<close>

lemma getAnswerFromAI_nonempty: "getAnswerFromAI g c q \<noteq> []"
  by (auto simp: getAnswerFromAI_unfold split: sum.splits)

end
