(* ===== verification/App.thy ===== *)
theory App
  imports PdfExtract AiAnswer
begin

text \<open>
  The React component \<open>App\<close> of \<open>src/src/App.tsx\<close>: its four \<open>useState\<close> hooks are the
  record \<open>app_state\<close>, together with the list \<open>inflight\<close> of asynchronous handlers
  suspended at an \<open>await\<close>. Each handler is split at its \<open>await\<close>: the synchronous part
  (\<open>handleFileUpload\<close>, \<open>handleSubmit\<close>) runs on the user's event, the continuation
  (\<open>handleFileUpload_settle\<close>, \<open>handleSubmit_settle\<close>) runs when the promise settles,
  in any order with other events. The \<open>disabled\<close> attributes of the rendered controls are
  the guards of the user's events. \<open>app_exec\<close> runs one event and \<open>app_step\<close> is the
  step relation; \<open>reachable\<close> gives the states of a session.
\<close>

subsection \<open>State\<close>

text \<open>\<open>interface Message { text: string; isBot: boolean }\<close>\<close>

record message =
  msg_text :: string
  isBot :: bool

definition bot_msg :: "string \<Rightarrow> message" where
  "bot_msg t = \<lparr>msg_text = t, isBot = True\<rparr>"

definition user_msg :: "string \<Rightarrow> message" where
  "user_msg t = \<lparr>msg_text = t, isBot = False\<rparr>"

text \<open>A selected \<open>File\<close>: \<open>file.arrayBuffer()\<close> either gives the bytes or rejects.\<close>

datatype js_file = File (arrayBuffer_result: "bytes option")

text \<open>
  A handler suspended at its \<open>await\<close>: the upload of a file, or the question sent with
  the document text it captured from its render.
\<close>

datatype pending_op = AwaitUpload js_file | AwaitAnswer string string

record app_state =
  pdfContent :: string
  messages :: "message list"
  question :: string
  isLoading :: bool
  inflight :: "pending_op list"

definition app_init :: app_state where
  "app_init = \<lparr>pdfContent = [], messages = [], question = [], isLoading = False, inflight = []\<rparr>"

definition upload_success_text :: string where
  "upload_success_text = ''PDF uploaded successfully! You can now ask questions about its content.''"

definition upload_error_text :: string where
  "upload_error_text = ''Error processing PDF. Please try again.''"

definition upload_first_text :: string where
  "upload_first_text = ''Please upload a PDF document first.''"

subsection \<open>handleFileUpload\<close>

text \<open>Up to the first \<open>await\<close>: no file selected returns at once.\<close>

definition handleFileUpload :: "js_file option \<Rightarrow> app_state \<Rightarrow> app_state" where
  "handleFileUpload file s =
     (case file of
        None \<Rightarrow> s
      | Some f \<Rightarrow> s\<lparr>isLoading := True, inflight := inflight s @ [AwaitUpload f]\<rparr>)"

text \<open>\<open>await file.arrayBuffer()\<close> then \<open>await extractTextFromPDF(buffer)\<close>.\<close>

definition read_error :: js_error where
  "read_error = Error ''NotReadableError''"

definition upload_result :: "pdf_library \<Rightarrow> js_file \<Rightarrow> js_error + string" where
  "upload_result getDocument f =
     (case arrayBuffer_result f of
        None \<Rightarrow> Inl read_error
      | Some buffer \<Rightarrow> extractTextFromPDF getDocument buffer)"

text \<open>The continuation: the \<open>try\<close> body or the \<open>catch\<close> block, then \<open>finally\<close>.\<close>

definition handleFileUpload_settle :: "js_error + string \<Rightarrow> app_state \<Rightarrow> app_state" where
  "handleFileUpload_settle r s =
     (case r of
        Inr text \<Rightarrow> s\<lparr>pdfContent := text, messages := [bot_msg upload_success_text]\<rparr>
      | Inl _ \<Rightarrow> s\<lparr>messages := [bot_msg upload_error_text]\<rparr>)\<lparr>isLoading := False\<rparr>"

subsection \<open>handleSubmit\<close>

definition handleSubmit :: "app_state \<Rightarrow> app_state" where
  "handleSubmit s =
     (if js_trim (question s) = [] \<or> pdfContent s = [] then
        s\<lparr>messages := messages s @ [bot_msg upload_first_text]\<rparr>
      else
        s\<lparr>messages := messages s @ [user_msg (question s)], isLoading := True,
          inflight := inflight s @ [AwaitAnswer (pdfContent s) (question s)]\<rparr>)"

text \<open>
  After \<open>await getAnswerFromAI(pdfContent, question)\<close>: the answer or, in the \<open>catch\<close>
  block, the fallback sentence is appended by a functional update of the current
  messages; \<open>finally\<close> clears the loading flag and the input.
\<close>

definition handleSubmit_settle :: "js_error + string \<Rightarrow> app_state \<Rightarrow> app_state" where
  "handleSubmit_settle r s =
     (case r of
        Inr answer \<Rightarrow> s\<lparr>messages := messages s @ [bot_msg answer]\<rparr>
      | Inl _ \<Rightarrow> s\<lparr>messages := messages s @ [bot_msg fallback_answer]\<rparr>)
     \<lparr>isLoading := False, question := []\<rparr>"

subsection \<open>The rendered controls\<close>

definition upload_button_disabled :: "app_state \<Rightarrow> bool" where
  "upload_button_disabled s \<longleftrightarrow> isLoading s"

definition question_input_disabled :: "app_state \<Rightarrow> bool" where
  "question_input_disabled s \<longleftrightarrow> isLoading s \<or> pdfContent s = []"

definition send_button_disabled :: "app_state \<Rightarrow> bool" where
  "send_button_disabled s \<longleftrightarrow> isLoading s \<or> pdfContent s = [] \<or> js_trim (question s) = []"

subsection \<open>Events and steps\<close>

text \<open>
  The user's events (typing, choosing a file, sending the form) and the settling of a
  suspended handler, chosen by its position in \<open>inflight\<close>, with the behaviour of the
  external library or service for that call.
\<close>

datatype app_event =
    ChangeQuestion string
  | ChooseFile "js_file option"
  | SubmitForm
  | UploadSettles nat pdf_library
  | AnswerSettles nat "string \<Rightarrow> js_error + gen_response"

definition drop_nth :: "nat \<Rightarrow> 'a list \<Rightarrow> 'a list" where
  "drop_nth i xs = take i xs @ drop (Suc i) xs"

fun app_exec :: "app_state \<Rightarrow> app_event \<Rightarrow> app_state option" where
  "app_exec s (ChangeQuestion v) =
     (if question_input_disabled s then None else Some (s\<lparr>question := v\<rparr>))"
| "app_exec s (ChooseFile file) =
     (if upload_button_disabled s then None else Some (handleFileUpload file s))"
| "app_exec s SubmitForm =
     (if send_button_disabled s then None else Some (handleSubmit s))"
| "app_exec s (UploadSettles i getDocument) =
     (if i < length (inflight s) then
        (case inflight s ! i of
           AwaitUpload f \<Rightarrow>
             Some (handleFileUpload_settle (upload_result getDocument f)
                     (s\<lparr>inflight := drop_nth i (inflight s)\<rparr>))
         | AwaitAnswer _ _ \<Rightarrow> None)
      else None)"
| "app_exec s (AnswerSettles i generateContent) =
     (if i < length (inflight s) then
        (case inflight s ! i of
           AwaitAnswer ctx q \<Rightarrow>
             Some (handleSubmit_settle (Inr (getAnswerFromAI generateContent ctx q))
                     (s\<lparr>inflight := drop_nth i (inflight s)\<rparr>))
         | AwaitUpload _ \<Rightarrow> None)
      else None)"

fun app_run :: "app_state \<Rightarrow> app_event list \<Rightarrow> app_state option" where
  "app_run s [] = Some s"
| "app_run s (e # es) = (case app_exec s e of None \<Rightarrow> None | Some t \<Rightarrow> app_run t es)"

inductive app_step :: "app_state \<Rightarrow> app_state \<Rightarrow> bool" where
  change_question: "\<not> question_input_disabled s \<Longrightarrow> app_step s (s\<lparr>question := v\<rparr>)"
| choose_file: "\<not> upload_button_disabled s \<Longrightarrow> app_step s (handleFileUpload file s)"
| submit_form: "\<not> send_button_disabled s \<Longrightarrow> app_step s (handleSubmit s)"
| upload_settles: "inflight s = xs @ AwaitUpload f # ys \<Longrightarrow>
     app_step s (handleFileUpload_settle (upload_result getDocument f) (s\<lparr>inflight := xs @ ys\<rparr>))"
| answer_settles: "inflight s = xs @ AwaitAnswer ctx q # ys \<Longrightarrow>
     app_step s (handleSubmit_settle (Inr (getAnswerFromAI generateContent ctx q))
                   (s\<lparr>inflight := xs @ ys\<rparr>))"

inductive reachable :: "app_state \<Rightarrow> bool" where
  init: "reachable app_init"
| step: "reachable s \<Longrightarrow> app_step s t \<Longrightarrow> reachable t"


subsection \<open>The session invariant\<close>

text \<open>The question of the answer the app is waiting for, if any.\<close>

fun pending_question :: "pending_op list \<Rightarrow> string option" where
  "pending_question [] = None"
| "pending_question (AwaitAnswer c q # ops) = Some q"
| "pending_question (AwaitUpload f # ops) = pending_question ops"

text \<open>
  The transcript after its first message: pairs of a non-blank question and a non-empty
  answer, ending with the question still waiting for its answer, if there is one.
\<close>

fun qa_log :: "message list \<Rightarrow> string option \<Rightarrow> bool" where
  "qa_log [] pq = (pq = None)"
| "qa_log [u] pq = (\<not> isBot u \<and> js_trim (msg_text u) \<noteq> [] \<and> pq = Some (msg_text u))"
| "qa_log (u # b # rest) pq =
     (\<not> isBot u \<and> js_trim (msg_text u) \<noteq> [] \<and> isBot b \<and> msg_text b \<noteq> [] \<and> qa_log rest pq)"

definition transcript_wf :: "message list \<Rightarrow> string option \<Rightarrow> bool" where
  "transcript_wf ms pq =
     (case ms of
        [] \<Rightarrow> pq = None
      | m # rest \<Rightarrow>
          (m = bot_msg upload_success_text \<or> m = bot_msg upload_error_text) \<and> qa_log rest pq)"

definition app_inv :: "app_state \<Rightarrow> bool" where
  "app_inv s \<longleftrightarrow>
     length (inflight s) \<le> 1 \<and>
     (isLoading s \<longleftrightarrow> inflight s \<noteq> []) \<and>
     (messages s = [] \<longrightarrow> pdfContent s = []) \<and>
     (\<forall>c q. AwaitAnswer c q \<in> set (inflight s) \<longrightarrow>
        c = pdfContent s \<and> c \<noteq> [] \<and> js_trim q \<noteq> []) \<and>
     transcript_wf (messages s) (pending_question (inflight s))"

subsection \<open>A sample session\<close>

text \<open>
  The scenario of the specification: a one-page PDF reading ``The sky is blue.'' and the
  question ``What color is the sky?''.
\<close>

definition sky_pdf :: pdf_library where
  "sky_pdf buf = Some \<lparr>doc_pages = [Some [TextItem ''The sky is blue.'']]\<rparr>"

definition sky_file :: js_file where
  "sky_file = File (Some [0x25, 0x50, 0x44, 0x46])"

definition sky_question :: string where
  "sky_question = ''What color is the sky?''"

definition sky_events :: "app_event list" where
  "sky_events = [ChooseFile (Some sky_file), UploadSettles 0 sky_pdf,
                 ChangeQuestion sky_question, SubmitForm]"

definition sky_asking :: app_state where
  "sky_asking =
     \<lparr>pdfContent = ''The sky is blue.'',
      messages = [bot_msg upload_success_text, user_msg sky_question],
      question = sky_question, isLoading = True,
      inflight = [AwaitAnswer ''The sky is blue.'' sky_question]\<rparr>"

subsection \<open>The event function and the step relation agree\<close>

lemmas guard_defs = upload_button_disabled_def question_input_disabled_def send_button_disabled_def

lemma nth_split_at:
  "i < length xs \<Longrightarrow> xs ! i = x \<Longrightarrow> xs = take i xs @ x # drop (Suc i) xs"
  using id_take_nth_drop by blast

lemma app_step_upload_at:
  assumes "i < length (inflight s)" and "inflight s ! i = AwaitUpload f"
  shows "app_step s (handleFileUpload_settle (upload_result g f)
           (s\<lparr>inflight := drop_nth i (inflight s)\<rparr>))"
  unfolding drop_nth_def by (rule app_step.upload_settles) (rule nth_split_at [OF assms])

lemma app_step_answer_at:
  assumes "i < length (inflight s)" and "inflight s ! i = AwaitAnswer c q"
  shows "app_step s (handleSubmit_settle (Inr (getAnswerFromAI g c q))
           (s\<lparr>inflight := drop_nth i (inflight s)\<rparr>))"
  unfolding drop_nth_def by (rule app_step.answer_settles) (rule nth_split_at [OF assms])

lemma app_exec_step: "app_exec s e = Some t \<Longrightarrow> app_step s t"
  by (cases e) (auto split: if_splits pending_op.splits
      intro: app_step.intros app_step_upload_at app_step_answer_at)

lemma app_run_reachable: "reachable s \<Longrightarrow> app_run s es = Some t \<Longrightarrow> reachable t"
proof (induction es arbitrary: s)
  case Nil
  then show ?case by simp
next
  case (Cons e es)
  then obtain u where u: "app_exec s e = Some u" and rest: "app_run u es = Some t"
    by (auto split: option.splits)
  from Cons.prems(1) u have "reachable u" by (blast intro: reachable.step app_exec_step)
  from this rest show ?case by (rule Cons.IH)
qed

lemma app_run_append:
  "app_run s (xs @ ys) = Option.bind (app_run s xs) (\<lambda>t. app_run t ys)"
  by (induction xs arbitrary: s) (auto split: option.splits)

lemma sky_run: "app_run app_init sky_events = Some sky_asking"
  by (simp add: sky_events_def sky_asking_def app_init_def guard_defs handleFileUpload_def
      upload_result_def sky_file_def sky_pdf_def extract_eval page_text_def item_str_def
      js_str_def handleFileUpload_settle_def handleSubmit_def drop_nth_def sky_question_def
      js_trim_def js_is_space_def)

lemma sky_asking_reachable: "reachable sky_asking"
  using app_run_reachable [OF reachable.init sky_run] .

lemma sky_answer_step:
  "app_step sky_asking (handleSubmit_settle (Inr ''Blue.'') (sky_asking\<lparr>inflight := []\<rparr>))"
proof -
  let ?g = "\<lambda>_::string. Inr (GenerateContentResponse (Inr ''Blue.'')) :: js_error + gen_response"
  have ans: "getAnswerFromAI ?g ''The sky is blue.'' sky_question = ''Blue.''"
    by (simp add: getAnswerFromAI_def js_or_str_def)
  have "app_step sky_asking (handleSubmit_settle (Inr (getAnswerFromAI ?g ''The sky is blue.'' sky_question))
      (sky_asking\<lparr>inflight := [] @ []\<rparr>))"
    by (rule app_step.answer_settles) (simp add: sky_asking_def)
  then show ?thesis by (simp only: ans append_Nil)
qed

subsection \<open>The invariant holds in every reachable state\<close>

lemma qa_log_snoc_user:
  "qa_log ms pq \<Longrightarrow> pq = None \<Longrightarrow> js_trim q \<noteq> [] \<Longrightarrow> qa_log (ms @ [user_msg q]) (Some q)"
  by (induction ms pq rule: qa_log.induct) (auto simp: user_msg_def)

lemma qa_log_snoc_bot:
  "qa_log ms pq \<Longrightarrow> pq = Some q \<Longrightarrow> a \<noteq> [] \<Longrightarrow> qa_log (ms @ [bot_msg a]) None"
  by (induction ms pq rule: qa_log.induct) (auto simp: bot_msg_def)

lemma transcript_wf_user:
  "transcript_wf ms None \<Longrightarrow> ms \<noteq> [] \<Longrightarrow> js_trim q \<noteq> [] \<Longrightarrow>
     transcript_wf (ms @ [user_msg q]) (Some q)"
  by (auto simp: transcript_wf_def qa_log_snoc_user split: list.splits)

lemma transcript_wf_bot:
  "transcript_wf ms (Some q) \<Longrightarrow> a \<noteq> [] \<Longrightarrow> transcript_wf (ms @ [bot_msg a]) None"
  by (auto simp: transcript_wf_def qa_log_snoc_bot split: list.splits)

lemma app_inv_init: "app_inv app_init"
  by (simp add: app_inv_def app_init_def transcript_wf_def)

lemma single_inflight: "length xs \<le> 1 \<Longrightarrow> xs = ys @ x # zs \<Longrightarrow> ys = [] \<and> zs = []"
  by (cases ys) auto

lemma app_step_inv: "app_step s t \<Longrightarrow> app_inv s \<Longrightarrow> app_inv t"
proof (induction rule: app_step.induct)
  case (change_question s v)
  then show ?case by (auto simp: app_inv_def guard_defs)
next
  case (choose_file s fl)
  then show ?case
    by (auto simp: app_inv_def guard_defs handleFileUpload_def split: option.splits)
next
  case (submit_form s)
  then have nil: "inflight s = []" and "messages s \<noteq> []"
    and "pdfContent s \<noteq> []" and "js_trim (question s) \<noteq> []"
    by (auto simp: app_inv_def guard_defs)
  moreover from submit_form.prems nil have "transcript_wf (messages s) None"
    by (auto simp: app_inv_def)
  ultimately show ?case
    by (simp add: app_inv_def handleSubmit_def transcript_wf_user)
next
  case (upload_settles s xs f ys g)
  then have "xs = [] \<and> ys = []" by (auto simp: app_inv_def dest: single_inflight)
  with upload_settles show ?case
    by (auto simp: app_inv_def handleFileUpload_settle_def transcript_wf_def split: sum.splits)
next
  case (answer_settles s xs c q ys g)
  then have nil: "xs = [] \<and> ys = []" by (auto simp: app_inv_def dest: single_inflight)
  with answer_settles have "transcript_wf (messages s) (Some q)"
    by (simp add: app_inv_def)
  with nil answer_settles show ?case
    by (simp add: app_inv_def handleSubmit_settle_def transcript_wf_bot getAnswerFromAI_nonempty)
qed

lemma reachable_inv: "reachable s \<Longrightarrow> app_inv s"
  by (induction rule: reachable.induct) (auto intro: app_inv_init app_step_inv)

lemma pending_question_None_iff:
  "pending_question ops = None \<longleftrightarrow> (\<forall>c q. AwaitAnswer c q \<notin> set ops)"
  by (induction ops rule: pending_question.induct) auto

lemma reachable_no_document_no_answer:
  "reachable s \<Longrightarrow> pdfContent s = [] \<Longrightarrow> AwaitAnswer c q \<notin> set (inflight s)"
  using reachable_inv [of s] by (auto simp: app_inv_def)

subsection \<open>Properties of the session\<close>

text \<open>
  C1. The session invariant is inductive: it holds initially and every step (user event or
  settling handler) keeps it. It says that at most one handler is suspended, that the
  loading flag is set exactly while one is, that a pending question was sent with the
  current, non-empty document text, and that the transcript is well formed.
\<close>

theorem app_inv_inductive:
  "app_inv app_init \<and> (app_inv s \<longrightarrow> app_step s t \<longrightarrow> app_inv t)"
  using app_inv_init app_step_inv by blast

theorem app_inv_inductive_witness:
  "app_inv app_init \<and> app_step app_init (handleFileUpload (Some sky_file) app_init) \<and>
   app_inv (handleFileUpload (Some sky_file) app_init)"
proof -
  have step: "app_step app_init (handleFileUpload (Some sky_file) app_init)"
    by (rule app_step.choose_file) (simp add: guard_defs app_init_def)
  with app_inv_inductive [of app_init "handleFileUpload (Some sky_file) app_init"]
  show ?thesis by blast
qed

text \<open>
  C2. Requests are serialised: in every reachable state at most one upload or question is
  in flight, the loading flag is set exactly while one is, and a question in flight was sent
  with the document text the app currently holds, which is not empty.
\<close>

theorem reachable_single_request:
  assumes "reachable s"
  shows "length (inflight s) \<le> 1 \<and> (isLoading s \<longleftrightarrow> inflight s \<noteq> []) \<and>
    (\<forall>c q. AwaitAnswer c q \<in> set (inflight s) \<longrightarrow> c = pdfContent s \<and> c \<noteq> [])"
  using reachable_inv [OF assms] by (simp add: app_inv_def)

theorem reachable_single_request_witness:
  "reachable sky_asking \<and> length (inflight sky_asking) \<le> 1 \<and> isLoading sky_asking \<and>
   pdfContent sky_asking \<noteq> []"
proof -
  have "length (inflight sky_asking) \<le> 1 \<and> (isLoading sky_asking \<longleftrightarrow> inflight sky_asking \<noteq> []) \<and>
    (\<forall>c q. AwaitAnswer c q \<in> set (inflight sky_asking) \<longrightarrow> c = pdfContent sky_asking \<and> c \<noteq> [])"
    by (rule reachable_single_request [OF sky_asking_reachable])
  then show ?thesis using sky_asking_reachable by (auto simp: sky_asking_def)
qed

text \<open>
  C3. In every reachable state the transcript is an upload status message followed by
  pairs of a non-blank user question and a non-empty bot answer, in this order, and ends
  with a user question exactly when an answer to that question is awaited.
\<close>

theorem reachable_transcript_wf:
  "reachable s \<Longrightarrow> transcript_wf (messages s) (pending_question (inflight s))"
  using reachable_inv by (simp add: app_inv_def)

theorem reachable_transcript_wf_witness:
  "reachable sky_asking \<and> transcript_wf (messages sky_asking) (pending_question (inflight sky_asking))"
  using sky_asking_reachable reachable_transcript_wf [OF sky_asking_reachable] by simp

text \<open>
  C10. The submit handler, called without a document, does not start a request: it only
  appends the prompt-for-upload message to the transcript.
\<close>

theorem handleSubmit_without_document:
  "pdfContent s = [] \<Longrightarrow> handleSubmit s = s\<lparr>messages := messages s @ [bot_msg upload_first_text]\<rparr>"
  by (simp add: handleSubmit_def)

theorem handleSubmit_without_document_witness:
  "pdfContent app_init = [] \<and>
   handleSubmit app_init = app_init\<lparr>messages := [bot_msg upload_first_text]\<rparr>"
  using handleSubmit_without_document [of app_init] by (simp add: app_init_def)

text \<open>
  C26. With a document loaded, a blank question is answered with the message asking to
  upload a PDF, as if no document were loaded: the two rejections share one message.
\<close>

theorem handleSubmit_blank_question:
  "pdfContent s \<noteq> [] \<Longrightarrow> js_trim (question s) = [] \<Longrightarrow>
     handleSubmit s = s\<lparr>messages := messages s @ [bot_msg upload_first_text]\<rparr>"
  by (simp add: handleSubmit_def)

theorem handleSubmit_blank_question_witness:
  "pdfContent (app_init\<lparr>pdfContent := ''The sky is blue.'', question := ''  ''\<rparr>) \<noteq> [] \<and>
   js_trim (question (app_init\<lparr>pdfContent := ''The sky is blue.'', question := ''  ''\<rparr>)) = [] \<and>
   messages (handleSubmit (app_init\<lparr>pdfContent := ''The sky is blue.'', question := ''  ''\<rparr>)) =
     [bot_msg upload_first_text]"
proof -
  have doc: "pdfContent (app_init\<lparr>pdfContent := ''The sky is blue.'', question := ''  ''\<rparr>) \<noteq> []"
    by simp
  have blank: "js_trim (question (app_init\<lparr>pdfContent := ''The sky is blue.'', question := ''  ''\<rparr>)) = []"
    by (simp add: js_trim_def js_is_space_def)
  show ?thesis
    using doc blank handleSubmit_blank_question [OF doc blank] by (simp add: app_init_def)
qed

text \<open>
  C11. In the rendered app, as long as no document text is held, no question can be sent:
  no step starts a request, and the transcript is never extended, only replaced by an upload
  status message. The prompt-for-upload branch of the submit handler is unreachable.
\<close>

theorem reachable_no_document_no_question:
  assumes "reachable s" and "pdfContent s = []" and "app_step s t"
  shows "pending_question (inflight t) = None \<and>
    messages t \<in> {messages s, [bot_msg upload_success_text], [bot_msg upload_error_text]}"
proof -
  have none: "\<forall>c q. AwaitAnswer c q \<notin> set (inflight s)"
    using reachable_no_document_no_answer [OF assms(1,2)] by blast
  from assms(3) show ?thesis
  proof cases
    case (upload_settles xs f ys g)
    with none show ?thesis
      by (auto simp: handleFileUpload_settle_def pending_question_None_iff split: sum.splits)
  next
    case (answer_settles xs c q ys g)
    then have "AwaitAnswer c q \<in> set (inflight s)" by simp
    with none show ?thesis by blast
  qed (use assms(2) none in \<open>auto simp: guard_defs handleFileUpload_def pending_question_None_iff
         split: option.splits\<close>)
qed

theorem reachable_no_document_no_question_witness:
  "pending_question (inflight (handleFileUpload (Some sky_file) app_init)) = None \<and>
   messages (handleFileUpload (Some sky_file) app_init) \<in>
     {messages app_init, [bot_msg upload_success_text], [bot_msg upload_error_text]}"
proof -
  have "app_step app_init (handleFileUpload (Some sky_file) app_init)"
    by (rule app_step.choose_file) (simp add: guard_defs app_init_def)
  then show ?thesis
    using reachable_no_document_no_question [OF reachable.init] by (simp add: app_init_def)
qed

text \<open>
  C13. A failed upload (unreadable file or extraction error) keeps the text of the previously
  uploaded document: only the transcript and the loading flag change.
\<close>

theorem upload_failure_keeps_document:
  "pdfContent (handleFileUpload_settle (Inl e) s) = pdfContent s \<and>
   messages (handleFileUpload_settle (Inl e) s) = [bot_msg upload_error_text] \<and>
   \<not> isLoading (handleFileUpload_settle (Inl e) s)"
  by (simp add: handleFileUpload_settle_def)

text \<open>
  C15. Settling an upload replaces the whole transcript by a single status message,
  whatever questions and answers it held before: the transcript is not append-only.
\<close>

theorem upload_replaces_transcript:
  "messages (handleFileUpload_settle r s) \<in> {[bot_msg upload_success_text], [bot_msg upload_error_text]}"
  by (simp add: handleFileUpload_settle_def split: sum.splits)

text \<open>
  C17. The app is never stuck loading: in a reachable state with a handler in flight, for
  every behaviour of pdf.js and of the service, settling that handler is possible and
  returns the app to a state with nothing in flight and the loading flag cleared.
\<close>

theorem settle_progress:
  assumes "reachable s" and "inflight s \<noteq> []"
  shows "\<forall>lib g. \<exists>t. (app_exec s (UploadSettles 0 lib) = Some t \<or> app_exec s (AnswerSettles 0 g) = Some t) \<and>
           inflight t = [] \<and> \<not> isLoading t"
proof (intro allI)
  fix lib g
  from reachable_inv [OF assms(1)] assms(2) obtain op where op: "inflight s = [op]"
    by (cases "inflight s") (auto simp: app_inv_def)
  show "\<exists>t. (app_exec s (UploadSettles 0 lib) = Some t \<or> app_exec s (AnswerSettles 0 g) = Some t) \<and>
           inflight t = [] \<and> \<not> isLoading t"
  proof (cases op)
    case (AwaitUpload f)
    with op show ?thesis
      by (simp add: drop_nth_def handleFileUpload_settle_def split: sum.splits)
  next
    case (AwaitAnswer c q)
    with op show ?thesis by (simp add: drop_nth_def handleSubmit_settle_def)
  qed
qed

theorem settle_progress_witness:
  "reachable sky_asking \<and> inflight sky_asking \<noteq> [] \<and>
   (\<exists>t. (app_exec sky_asking (UploadSettles 0 sky_pdf) = Some t \<or>
         app_exec sky_asking (AnswerSettles 0 (\<lambda>_. Inl (Error []))) = Some t) \<and>
        inflight t = [] \<and> \<not> isLoading t)"
  using settle_progress [OF sky_asking_reachable] sky_asking_reachable by (simp add: sky_asking_def)

text \<open>
  C18. The \<open>catch\<close> block of \<open>handleSubmit\<close> is observationally the same as an answer
  equal to the fallback sentence: whether the client throws or answers with the fallback,
  the app reaches the same state.
\<close>

theorem answer_catch_equiv:
  "handleSubmit_settle (Inl e) s = handleSubmit_settle (Inr fallback_answer) s"
  by (simp add: handleSubmit_settle_def)

text \<open>
  C19. From an idle state with a document and a non-blank question, sending the form and
  then the answer settling appends the user's question and then the answer the client
  computed from the held document text and that question, clears the input and the
  loading flag, and changes nothing else.
\<close>

theorem submit_then_answer:
  assumes "\<not> send_button_disabled s" and "inflight s = []"
  shows "Option.bind (app_exec s SubmitForm) (\<lambda>t. app_exec t (AnswerSettles 0 g)) =
    Some (s\<lparr>messages := messages s @ [user_msg (question s),
                bot_msg (getAnswerFromAI g (pdfContent s) (question s))],
            question := [], isLoading := False\<rparr>)"
  using assms by (simp add: guard_defs handleSubmit_def handleSubmit_settle_def drop_nth_def)

theorem submit_then_answer_witness:
  "\<not> send_button_disabled (app_init\<lparr>pdfContent := ''The sky is blue.'', question := sky_question\<rparr>) \<and>
   inflight (app_init\<lparr>pdfContent := ''The sky is blue.'', question := sky_question\<rparr>) = [] \<and>
   Option.bind (app_exec (app_init\<lparr>pdfContent := ''The sky is blue.'', question := sky_question\<rparr>) SubmitForm)
     (\<lambda>t. app_exec t (AnswerSettles 0 (\<lambda>_. Inr (GenerateContentResponse (Inr ''Blue.''))))) =
   Some (app_init\<lparr>pdfContent := ''The sky is blue.'',
     messages := [user_msg sky_question, bot_msg ''Blue.'']\<rparr>)"
proof -
  have pre: "\<not> send_button_disabled (app_init\<lparr>pdfContent := ''The sky is blue.'', question := sky_question\<rparr>)"
    by (simp add: guard_defs app_init_def sky_question_def js_trim_def js_is_space_def)
  have "inflight (app_init\<lparr>pdfContent := ''The sky is blue.'', question := sky_question\<rparr>) = []"
    by (simp add: app_init_def)
  with pre show ?thesis
    using submit_then_answer [OF pre, of "\<lambda>_. Inr (GenerateContentResponse (Inr ''Blue.''))"]
    by (simp add: app_init_def getAnswerFromAI_def js_or_str_def)
qed

end
