(* ===== verification/Session.thy ===== *)
theory Session
  imports App
begin

text \<open>
  An abstract specification of what the app promises its user, and the proof that the
  component of \<open>src/src/App.tsx\<close> implements it. A session holds the document text, the
  outcome of the last upload, the log of answered questions and the question being
  answered. Its events are the four things a user can observe, with their data: a question
  is asked; it is answered by the client from the session's document text; an upload
  succeeds with the extracted text; an upload fails. \<open>session_apply\<close> is the effect of an
  event and \<open>session_enabled\<close> when it may happen. \<open>abs_session\<close> reads a session off an
  app state (the log is read from the transcript) and \<open>observe\<close> the session event an app
  event amounts to (none for typing and for choosing a file); \<open>session_refinement\<close> shows
  the functional refinement \<open>abs_session (app step) = session_apply (observed event)
  (abs_session state)\<close>.
\<close>

datatype upload_status = NoUpload | Uploaded | UploadFailed

record session =
  doc :: string
  status :: upload_status
  qa_log_of :: "(string \<times> string) list"
  waiting :: "string option"

definition session_init :: session where
  "session_init = \<lparr>doc = [], status = NoUpload, qa_log_of = [], waiting = None\<rparr>"

datatype session_event =
    Ask string
  | Answer "string \<Rightarrow> js_error + gen_response"
  | UploadOk string
  | UploadFails

fun session_enabled :: "session_event \<Rightarrow> session \<Rightarrow> bool" where
  "session_enabled (Ask q) S \<longleftrightarrow> waiting S = None \<and> doc S \<noteq> [] \<and> js_trim q \<noteq> []"
| "session_enabled (Answer g) S \<longleftrightarrow> waiting S \<noteq> None"
| "session_enabled (UploadOk t) S \<longleftrightarrow> waiting S = None"
| "session_enabled UploadFails S \<longleftrightarrow> waiting S = None"

fun session_apply :: "session_event \<Rightarrow> session \<Rightarrow> session" where
  "session_apply (Ask q) S = S\<lparr>waiting := Some q\<rparr>"
| "session_apply (Answer g) S =
     (case waiting S of
        None \<Rightarrow> S
      | Some q \<Rightarrow> S\<lparr>qa_log_of := qa_log_of S @ [(q, getAnswerFromAI g (doc S) q)], waiting := None\<rparr>)"
| "session_apply (UploadOk t) S = S\<lparr>doc := t, status := Uploaded, qa_log_of := []\<rparr>"
| "session_apply UploadFails S = S\<lparr>status := UploadFailed, qa_log_of := []\<rparr>"

text \<open>The question/answer pairs of a transcript after its status message.\<close>

fun qa_pairs :: "message list \<Rightarrow> (string \<times> string) list" where
  "qa_pairs (u # b # rest) = (msg_text u, msg_text b) # qa_pairs rest"
| "qa_pairs _ = []"

definition status_of :: "message list \<Rightarrow> upload_status" where
  "status_of ms =
     (case ms of
        [] \<Rightarrow> NoUpload
      | m # _ \<Rightarrow> if m = bot_msg upload_success_text then Uploaded else UploadFailed)"

definition abs_session :: "app_state \<Rightarrow> session" where
  "abs_session s =
     \<lparr>doc = pdfContent s, status = status_of (messages s),
      qa_log_of = qa_pairs (tl (messages s)), waiting = pending_question (inflight s)\<rparr>"

text \<open>The session event an app event amounts to, with the outcome of the upload it settles.\<close>

fun observe :: "app_state \<Rightarrow> app_event \<Rightarrow> session_event option" where
  "observe s (ChangeQuestion v) = None"
| "observe s (ChooseFile fl) = None"
| "observe s SubmitForm = Some (Ask (question s))"
| "observe s (UploadSettles i lib) =
     (if i < length (inflight s) then
        (case inflight s ! i of
           AwaitUpload f \<Rightarrow>
             Some (case upload_result lib f of Inr t \<Rightarrow> UploadOk t | Inl _ \<Rightarrow> UploadFails)
         | AwaitAnswer _ _ \<Rightarrow> None)
      else None)"
| "observe s (AnswerSettles i g) = Some (Answer g)"

subsection \<open>The transcript read as a log\<close>

lemma qa_pairs_snoc_user:
  "qa_log ms pq \<Longrightarrow> pq = None \<Longrightarrow> qa_pairs (ms @ [u]) = qa_pairs ms"
  by (induction ms pq rule: qa_log.induct) auto

lemma qa_pairs_snoc_bot:
  "qa_log ms pq \<Longrightarrow> pq = Some q \<Longrightarrow> qa_pairs (ms @ [b]) = qa_pairs ms @ [(q, msg_text b)]"
  by (induction ms pq rule: qa_log.induct) auto

lemma status_of_snoc [simp]: "ms \<noteq> [] \<Longrightarrow> status_of (ms @ [m]) = status_of ms"
  by (cases ms) (simp_all add: status_of_def)

lemma transcript_wf_tail: "transcript_wf ms pq \<Longrightarrow> qa_log (tl ms) pq"
  by (cases ms) (simp_all add: transcript_wf_def)

lemma abs_session_init [simp]: "abs_session app_init = session_init"
  by (simp add: abs_session_def app_init_def session_init_def status_of_def)

lemma single_op: "app_inv s \<Longrightarrow> i < length (inflight s) \<Longrightarrow> inflight s ! i = op \<Longrightarrow>
    inflight s = [op] \<and> i = 0"
  by (cases "inflight s") (auto simp: app_inv_def)

lemma abs_session_exec:
  assumes inv: "app_inv s" and ex: "app_exec s e = Some t"
  shows "abs_session t = (case observe s e of None \<Rightarrow> abs_session s | Some a \<Rightarrow> session_apply a (abs_session s)) \<and>
         (\<forall>a. observe s e = Some a \<longrightarrow> session_enabled a (abs_session s))"
proof (cases e)
  case (ChangeQuestion v)
  with ex show ?thesis by (auto simp: abs_session_def split: if_splits)
next
  case (ChooseFile fl)
  with ex inv have "inflight s = []" and t: "t = handleFileUpload fl s"
    by (auto simp: app_inv_def guard_defs split: if_splits)
  with ChooseFile show ?thesis
    by (auto simp: abs_session_def handleFileUpload_def split: option.splits)
next
  case SubmitForm
  with ex have t: "t = handleSubmit s" and en: "\<not> send_button_disabled s"
    by (auto split: if_splits)
  from inv en have nil: "inflight s = []" and ne: "messages s \<noteq> []"
    and pdf: "pdfContent s \<noteq> []" and q: "js_trim (question s) \<noteq> []"
    by (auto simp: app_inv_def guard_defs)
  with inv have wf: "transcript_wf (messages s) None" by (simp add: app_inv_def)
  have "abs_session t = (abs_session s)\<lparr>waiting := Some (question s)\<rparr>"
    using t nil ne pdf q transcript_wf_tail [OF wf]
    by (simp add: abs_session_def handleSubmit_def qa_pairs_snoc_user)
  with SubmitForm nil pdf q show ?thesis by (simp add: abs_session_def)
next
  case (UploadSettles i lib)
  with ex obtain f where i: "i < length (inflight s)" and op: "inflight s ! i = AwaitUpload f"
    and t: "t = handleFileUpload_settle (upload_result lib f) (s\<lparr>inflight := drop_nth i (inflight s)\<rparr>)"
    by (auto split: if_splits pending_op.splits)
  from single_op [OF inv i op] have one: "inflight s = [AwaitUpload f]" and i0: "i = 0" by simp_all
  show ?thesis
  proof (cases "upload_result lib f")
    case (Inl err)
    with UploadSettles t one i0 show ?thesis
      by (simp add: abs_session_def handleFileUpload_settle_def status_of_def bot_msg_def drop_nth_def
          upload_error_text_def upload_success_text_def)
  next
    case (Inr res)
    with UploadSettles t one i0 show ?thesis
      by (simp add: abs_session_def handleFileUpload_settle_def status_of_def drop_nth_def)
  qed
next
  case (AnswerSettles i g)
  with ex obtain c q where i: "i < length (inflight s)" and op: "inflight s ! i = AwaitAnswer c q"
    and t: "t = handleSubmit_settle (Inr (getAnswerFromAI g c q)) (s\<lparr>inflight := drop_nth i (inflight s)\<rparr>)"
    by (auto split: if_splits pending_op.splits)
  from single_op [OF inv i op] have one: "inflight s = [AwaitAnswer c q]" and i0: "i = 0" by simp_all
  with inv have c: "c = pdfContent s" and wf: "transcript_wf (messages s) (Some q)"
    by (simp_all add: app_inv_def)
  then have ne: "messages s \<noteq> []" by (auto simp: transcript_wf_def)
  have "abs_session t =
      (abs_session s)\<lparr>qa_log_of := qa_log_of (abs_session s) @ [(q, getAnswerFromAI g c q)], waiting := None\<rparr>"
    using t one i0 ne transcript_wf_tail [OF wf]
    by (simp add: abs_session_def handleSubmit_settle_def qa_pairs_snoc_bot bot_msg_def drop_nth_def)
  with AnswerSettles one c show ?thesis by (simp add: abs_session_def)
qed

subsection \<open>The app implements the session\<close>

text \<open>
  C24. Functional refinement: the first render is the initial session, and in every
  reachable state, every event the app accepts changes
  the abstract session exactly as the session event it amounts to prescribes (an asked
  question becomes the one waiting; an answer appends the question with the client's answer
  computed from the held document text; a successful upload holds its extracted text,
  records success and clears the log; a failed one records the failure and clears the log),
  that session event is enabled, and typing or choosing a file leaves the session unchanged.
\<close>

theorem session_refinement:
  assumes "reachable s" and "app_exec s e = Some t"
  shows "abs_session app_init = session_init \<and>
         abs_session t = (case observe s e of None \<Rightarrow> abs_session s | Some a \<Rightarrow> session_apply a (abs_session s)) \<and>
         (\<forall>a. observe s e = Some a \<longrightarrow> session_enabled a (abs_session s))"
  using abs_session_exec [OF reachable_inv [OF assms(1)] assms(2)] by simp

theorem session_refinement_witness:
  "reachable sky_asking \<and>
   app_exec sky_asking (AnswerSettles 0 (\<lambda>_. Inr (GenerateContentResponse (Inr ''Blue.'')))) =
     Some (handleSubmit_settle (Inr ''Blue.'') (sky_asking\<lparr>inflight := []\<rparr>)) \<and>
   abs_session (handleSubmit_settle (Inr ''Blue.'') (sky_asking\<lparr>inflight := []\<rparr>)) =
     (abs_session sky_asking)\<lparr>qa_log_of := [(sky_question, ''Blue.'')], waiting := None\<rparr>"
proof -
  let ?g = "\<lambda>_::string. Inr (GenerateContentResponse (Inr ''Blue.'')) :: js_error + gen_response"
  have ex: "app_exec sky_asking (AnswerSettles 0 ?g) =
      Some (handleSubmit_settle (Inr ''Blue.'') (sky_asking\<lparr>inflight := []\<rparr>))"
    by (simp add: sky_asking_def drop_nth_def getAnswerFromAI_def js_or_str_def)
  from session_refinement [OF sky_asking_reachable ex] sky_asking_reachable ex show ?thesis
    by (simp add: sky_asking_def abs_session_def getAnswerFromAI_def js_or_str_def)
qed

end
