(* ===== verification/Render.thy ===== *)
theory Render
  imports App "HOL-Library.Sublist"
begin

text \<open>
  What the app shows: the markup of a transcript entry, as \<open>App\<close> writes it inline
  (\<open>src/src/App.tsx\<close>, lines 120--142) and as the unused component \<open>ChatMessage\<close>
  (\<open>src/src/components/ChatMessage.tsx\<close>) writes it, the labels of the two buttons
  (lines 113 and 162), and the whole page the component returns (lines 89--169). An
  element is its class names, its icon and its text; the CSS of layout containers is not
  modelled.
\<close>

datatype icon = SendIcon | UploadIcon | MessageCircleIcon | UserIcon

record rendered_message =
  row_class :: string
  avatar_class :: string
  msg_icon :: icon
  bubble_class :: string
  body :: string

text \<open>The inline markup of \<open>messages.map((message, index) => ...)\<close> in \<open>App\<close>.\<close>

definition app_render_message :: "message \<Rightarrow> rendered_message" where
  "app_render_message message =
     \<lparr>row_class = ''flex items-start gap-2 '' @ (if isBot message then ''flex-row'' else ''flex-row-reverse''),
      avatar_class = ''p-2 rounded-full '' @ (if isBot message then ''bg-blue-100'' else ''bg-gray-100''),
      msg_icon = (if isBot message then SendIcon else UploadIcon),
      bubble_class = ''max-w-[80%] p-3 rounded-lg '' @ (if isBot message then ''bg-blue-100'' else ''bg-gray-100''),
      body = msg_text message\<rparr>"

definition app_render_messages :: "app_state \<Rightarrow> rendered_message list" where
  "app_render_messages s = map app_render_message (messages s)"

text \<open>\<open>interface ChatMessageProps { message: string; isBot: boolean }\<close>\<close>

record ChatMessageProps =
  props_message :: string
  props_isBot :: bool

text \<open>\<open>ChatMessage({ message, isBot }: ChatMessageProps)\<close>.\<close>

definition ChatMessage :: "ChatMessageProps \<Rightarrow> rendered_message" where
  "ChatMessage props =
     (let message = props_message props; isBot' = props_isBot props in
      \<lparr>row_class = ''flex items-start gap-2 '' @ (if isBot' then ''flex-row'' else ''flex-row-reverse''),
       avatar_class = ''p-2 rounded-full '' @ (if isBot' then ''bg-blue-100'' else ''bg-gray-100''),
       msg_icon = (if isBot' then MessageCircleIcon else UserIcon),
       bubble_class = ''max-w-[80%] p-3 rounded-lg '' @ (if isBot' then ''bg-blue-100'' else ''bg-gray-100''),
       body = message\<rparr>)"

definition upload_button_label :: "app_state \<Rightarrow> string" where
  "upload_button_label s = (if isLoading s then ''Processing...'' else ''Upload PDF'')"

definition send_button_label :: "app_state \<Rightarrow> string" where
  "send_button_label s = (if isLoading s then ''Processing...'' else ''Send'')"

text \<open>
  The page the component returns: the title, the upload button, the transcript, and the
  form with the question input and the send button; for each control its label or value,
  its icon and whether it is disabled.
\<close>

record button_view =
  btn_icon :: icon
  btn_label :: string
  btn_disabled :: bool

record input_view =
  input_value :: string
  input_placeholder :: string
  input_disabled :: bool

record page_view =
  page_title :: string
  upload_btn :: button_view
  transcript :: "rendered_message list"
  question_input :: input_view
  send_btn :: button_view

definition app_render :: "app_state \<Rightarrow> page_view" where
  "app_render s =
     \<lparr>page_title = ''PDF Chatbot'',
      upload_btn = \<lparr>btn_icon = UploadIcon, btn_label = upload_button_label s,
                    btn_disabled = upload_button_disabled s\<rparr>,
      transcript = app_render_messages s,
      question_input = \<lparr>input_value = question s,
                        input_placeholder = ''Ask a question about the PDF...'',
                        input_disabled = question_input_disabled s\<rparr>,
      send_btn = \<lparr>btn_icon = SendIcon, btn_label = send_button_label s,
                  btn_disabled = send_button_disabled s\<rparr>\<rparr>"

subsection \<open>Properties of the rendering\<close>

text \<open>
  C25. In every reachable state both buttons read ``Processing...'' exactly while an upload
  or a question is in flight.
\<close>

theorem reachable_processing_label:
  "reachable s \<Longrightarrow>
     (upload_button_label s = ''Processing...'' \<longleftrightarrow> inflight s \<noteq> []) \<and>
     (send_button_label s = ''Processing...'' \<longleftrightarrow> inflight s \<noteq> [])"
  using reachable_inv [of s] by (auto simp: app_inv_def upload_button_label_def send_button_label_def)

theorem reachable_processing_label_witness:
  "reachable sky_asking \<and> upload_button_label sky_asking = ''Processing...'' \<and>
   send_button_label sky_asking = ''Processing...''"
  using reachable_processing_label [OF sky_asking_reachable] sky_asking_reachable
  by (simp add: sky_asking_def)

text \<open>
  C33. The transcript is keyed by position (\<open>key={index}\<close>), which is sound because no
  step rewrites an entry in place: every step either keeps the rendered transcript as a
  prefix of the new one or, when an upload settles, replaces it by the single status line.
\<close>

theorem transcript_keys_stable:
  assumes "app_step s t"
  shows "prefix (transcript (app_render s)) (transcript (app_render t)) \<or>
         transcript (app_render t) = [app_render_message (bot_msg upload_success_text)] \<or>
         transcript (app_render t) = [app_render_message (bot_msg upload_error_text)]"
  using assms
  by (cases rule: app_step.cases)
     (auto simp: app_render_def app_render_messages_def handleFileUpload_def handleSubmit_def
        handleSubmit_settle_def handleFileUpload_settle_def split: option.splits sum.splits)

theorem transcript_keys_stable_witness:
  "app_step sky_asking (handleSubmit_settle (Inr ''Blue.'') (sky_asking\<lparr>inflight := []\<rparr>)) \<and>
   prefix (transcript (app_render sky_asking))
     (transcript (app_render (handleSubmit_settle (Inr ''Blue.'') (sky_asking\<lparr>inflight := []\<rparr>))))"
proof -
  note step = sky_answer_step
  have "length (transcript (app_render (handleSubmit_settle (Inr ''Blue.'') (sky_asking\<lparr>inflight := []\<rparr>)))) = 3"
    by (simp add: app_render_def app_render_messages_def handleSubmit_settle_def sky_asking_def)
  with transcript_keys_stable [OF step] step show ?thesis by auto
qed

end
