(* ===== verification/Prompt.thy ===== *)
theory Prompt
  imports AiAnswer "HOL-Library.Sublist"
begin

text \<open>
  Reading the prompt back. \<open>parse_prompt\<close> recovers the document text and the question from
  a prompt built by \<open>ai_prompt\<close> (\<open>src/src/utils/pdfUtils.ts\<close>, line 39): the text before
  the first \<open>question_header\<close> is the context, the text between it and the fixed
  instruction is the question. The round-trip law shows the prompt is a faithful encoding
  of the pair when the document has no blank line; \<open>prompt_ambiguous\<close> in \<open>AiAnswer\<close>
  shows it is not one in general.
\<close>

definition prompt_prefix :: string where
  "prompt_prefix = ''Context from PDF: ''"

definition question_header :: string where
  "question_header = nl @ nl @ ''Question: ''"

definition prompt_suffix :: string where
  \<open>prompt_suffix = nl @ nl @
     ''Please provide a concise and relevant answer based on the context. If the answer cannot be found in the context, respond with: "Sorry, I didn't understand your question. Do you want to connect with a live agent?"''\<close>

text \<open>Split at the first occurrence of a separator.\<close>

fun split_first :: "'a list \<Rightarrow> 'a list \<Rightarrow> ('a list \<times> 'a list) option" where
  "split_first sep [] = (if sep = [] then Some ([], []) else None)"
| "split_first sep (x # xs) =
     (if take (length sep) (x # xs) = sep then Some ([], drop (length sep) (x # xs))
      else map_option (\<lambda>(a, b). (x # a, b)) (split_first sep xs))"

definition parse_prompt :: "string \<Rightarrow> (string \<times> string) option" where
  "parse_prompt p =
     (if take (length prompt_prefix) p \<noteq> prompt_prefix then None
      else case split_first question_header (drop (length prompt_prefix) p) of
        None \<Rightarrow> None
      | Some (c, rest) \<Rightarrow>
          if suffix prompt_suffix rest
          then Some (c, take (length rest - length prompt_suffix) rest) else None)"

subsection \<open>Splitting at a separator\<close>

lemma split_first_append:
  assumes "sep \<noteq> []"
    and "\<And>d. d \<noteq> [] \<Longrightarrow> suffix d c \<Longrightarrow> take (length sep) (d @ sep @ r) \<noteq> sep"
  shows "split_first sep (c @ sep @ r) = Some (c, r)"
  using assms(2)
proof (induction c)
  case Nil
  with assms(1) show ?case by (cases sep) simp_all
next
  case (Cons x c)
  have "take (length sep) ((x # c) @ sep @ r) \<noteq> sep" by (rule Cons.prems) simp_all
  moreover have "split_first sep (c @ sep @ r) = Some (c, r)"
    by (rule Cons.IH) (erule Cons.prems, erule suffix_ConsI)
  ultimately show ?case by simp
qed

lemma question_header_no_overlap:
  assumes "\<not> sublist (nl @ nl) c" and "d \<noteq> []" and "suffix d c"
  shows "take (length question_header) (d @ question_header @ r) \<noteq> question_header"
proof
  assume eq: "take (length question_header) (d @ question_header @ r) = question_header"
  obtain x d' where d: "d = x # d'" using assms(2) by (cases d) auto
  show False
  proof (cases d')
    case Nil
    with eq d show False by (simp add: question_header_def nl_def)
  next
    case (Cons y d'')
    with eq d have "x # y # d'' = d" and "[x, y] = nl @ nl"
      by (simp_all add: question_header_def nl_def)
    with assms(1,3) show False
      by (metis append_Cons append_Nil sublist_appendI sublist_order.order_trans suffix_def suffix_imp_sublist)
  qed
qed

lemmas prompt_parts_defs = prompt_prefix_def question_header_def prompt_suffix_def

subsection \<open>The round trip\<close>

text \<open>
  C27. Round trip: when the document text has no blank line (no two consecutive line
  breaks), the prompt sent to the service determines the document text and the question:
  parsing it gives both back, whatever the question contains.
\<close>

theorem prompt_roundtrip:
  assumes "\<not> sublist (nl @ nl) c"
  shows "parse_prompt (ai_prompt c q) = Some (c, q)"
proof -
  have parts: "ai_prompt c q = prompt_prefix @ c @ question_header @ q @ prompt_suffix"
    by (simp add: ai_prompt_def prompt_parts_defs)
  have "split_first question_header (c @ question_header @ q @ prompt_suffix) = Some (c, q @ prompt_suffix)"
  proof (rule split_first_append)
    show "question_header \<noteq> []" by (simp add: question_header_def)
  qed (rule question_header_no_overlap [OF assms])
  then show ?thesis by (simp add: parse_prompt_def parts suffix_def)
qed

theorem prompt_roundtrip_witness:
  "\<not> sublist (nl @ nl) ''The sky is blue.'' \<and>
   parse_prompt (ai_prompt ''The sky is blue.'' ''What color is the sky?'') =
     Some (''The sky is blue.'', ''What color is the sky?'')"
  using prompt_roundtrip [of "''The sky is blue.''" "''What color is the sky?''"]
  by (simp add: nl_def sublist_Cons_right)

end
