(* ===== verification/ExtractTrace.thy ===== *)
theory ExtractTrace
  imports PdfExtract
begin

text \<open>
  The requests the page loop of \<open>extractTextFromPDF\<close> (\<open>src/src/utils/pdfUtils.ts\<close>,
  lines 18--25) makes to pdf.js. \<open>page_requests\<close> has the recursion of
  \<open>extract_pages\<close> and returns, instead of the text, the page numbers passed to
  \<open>pdf.getPage\<close> in the order of the calls; a page whose text cannot be read ends the
  loop, as its rejection leaves the \<open>for\<close> loop for the \<open>catch\<close> block. The closed form
  shows the loop terminates after at most \<open>numPages\<close> requests.
\<close>

function page_requests :: "pdf_document \<Rightarrow> nat \<Rightarrow> nat list" where
  "page_requests pdf i =
     (if i \<le> numPages pdf then
        i # (case getPage pdf i of
               None \<Rightarrow> []
             | Some textContent \<Rightarrow> page_requests pdf (Suc i))
      else [])"
  by pat_completeness auto
termination
  by (relation "measure (\<lambda>(pdf, i). Suc (numPages pdf) - i)") auto

declare page_requests.simps [simp del]

text \<open>The number of pages the loop reads from \<open>ps\<close>: up to and including the first failure.\<close>

definition pages_read :: "text_content option list \<Rightarrow> nat" where
  "pages_read ps = min (length ps) (Suc (length (takeWhile (\<lambda>p. p \<noteq> None) ps)))"

subsection \<open>The requests in closed form\<close>

lemma pages_read_Cons [simp]:
  "pages_read (p # ps) = (case p of None \<Rightarrow> Suc 0 | Some c \<Rightarrow> Suc (pages_read ps))"
  by (simp add: pages_read_def split: option.splits)

lemma pages_read_le: "pages_read ps \<le> length ps"
  by (simp add: pages_read_def)

lemma page_requests_eq:
  "page_requests pdf (Suc j) = [Suc j ..< Suc j + pages_read (drop j (doc_pages pdf))]"
proof (induction pdf "Suc j" arbitrary: j rule: page_requests.induct)
  case (1 pdf j)
  show ?case
  proof (cases "Suc j \<le> numPages pdf")
    case True
    then have drop: "drop j (doc_pages pdf) = doc_pages pdf ! j # drop (Suc j) (doc_pages pdf)"
      by (simp add: numPages_def Cons_nth_drop_Suc)
    have page: "getPage pdf (Suc j) = doc_pages pdf ! j"
      using True by (simp add: getPage_def)
    show ?thesis
    proof (cases "doc_pages pdf ! j")
      case None
      with True show ?thesis by (simp add: page_requests.simps [of pdf "Suc j"] page drop)
    next
      case (Some c)
      with True page "1.hyps" [OF True, of c] show ?thesis
        by (simp add: page_requests.simps [of pdf "Suc j"] drop upt_rec)
    qed
  next
    case False
    then show ?thesis
      by (simp add: page_requests.simps [of pdf "Suc j"] numPages_def pages_read_def)
  qed
qed

lemma pages_read_None:
  "(\<exists>k<pages_read ps. ps ! k = None) \<longleftrightarrow> None \<in> set ps"
proof (induction ps)
  case Nil
  then show ?case by (simp add: pages_read_def)
next
  case (Cons p ps)
  show ?case
  proof (cases p)
    case None
    then show ?thesis by auto
  next
    case (Some c)
    have "(\<exists>k<Suc (pages_read ps). (p # ps) ! k = None) \<longleftrightarrow> (\<exists>k<pages_read ps. ps ! k = None)"
      using Some by (auto simp: less_Suc_eq_0_disj)
    with Some Cons.IH show ?thesis by simp
  qed
qed

lemma page_requests_first:
  "page_requests pdf (Suc 0) = [Suc 0 ..< Suc (pages_read (doc_pages pdf))]"
  using page_requests_eq [of pdf 0] by simp

lemma ex_page_number:
  "(\<exists>i. Suc 0 \<le> i \<and> i \<le> n \<and> P (i - 1)) \<longleftrightarrow> (\<exists>k<n. P k)"
proof
  assume "\<exists>i. Suc 0 \<le> i \<and> i \<le> n \<and> P (i - 1)"
  then obtain i where "Suc 0 \<le> i" "i \<le> n" "P (i - 1)" by blast
  then show "\<exists>k<n. P k" by (intro exI [of _ "i - 1"]) auto
next
  assume "\<exists>k<n. P k"
  then obtain k where "k < n" "P k" by blast
  then show "\<exists>i. Suc 0 \<le> i \<and> i \<le> n \<and> P (i - 1)" by (intro exI [of _ "Suc k"]) auto
qed

subsection \<open>The loop terminates after at most numPages requests\<close>

text \<open>
  C28. Termination and its bound: the loop asks pdf.js for pages 1, 2, ... in increasing
  order, one request per page, and stops after the first page whose text cannot be read or
  after the last page; it never makes more than \<open>numPages\<close> requests.
\<close>

theorem page_requests_closed_form:
  "page_requests pdf (Suc 0) = [Suc 0 ..< Suc (pages_read (doc_pages pdf))] \<and>
   length (page_requests pdf (Suc 0)) \<le> numPages pdf"
  using page_requests_eq [of pdf 0] pages_read_le [of "doc_pages pdf"]
  by (simp add: numPages_def)

text \<open>
  C34. The requests and the result agree: the loop of \<open>extractTextFromPDF\<close> fails
  exactly when one of the pages it requested cannot be read, so the trace of requests
  accounts for every failure of the extraction.
\<close>

theorem extract_fails_at_requested_page:
  "extract_pages pdf (Suc 0) [] = None \<longleftrightarrow>
     (\<exists>i\<in>set (page_requests pdf (Suc 0)). getPage pdf i = None)"
proof -
  let ?n = "pages_read (doc_pages pdf)"
  have get: "getPage pdf i = doc_pages pdf ! (i - 1)" if "Suc 0 \<le> i" and "i \<le> ?n" for i
    using that pages_read_le [of "doc_pages pdf"] by (simp add: getPage_def numPages_def)
  have "(\<exists>i\<in>set (page_requests pdf (Suc 0)). getPage pdf i = None) \<longleftrightarrow>
      (\<exists>i. Suc 0 \<le> i \<and> i \<le> ?n \<and> getPage pdf i = None)"
    by (simp only: page_requests_first set_upt atLeastLessThanSuc_atLeastAtMost Bex_def
        atLeastAtMost_iff conj_assoc)
  also have "\<dots> \<longleftrightarrow> (\<exists>i. Suc 0 \<le> i \<and> i \<le> ?n \<and> doc_pages pdf ! (i - 1) = None)"
    by (intro ex_cong1 conj_cong refl) (simp add: get)
  also have "\<dots> \<longleftrightarrow> (\<exists>k<?n. doc_pages pdf ! k = None)"
    by (rule ex_page_number)
  finally show ?thesis
    by (simp add: extract_pages_from_first pages_read_None those_None_iff)
qed

end
