(* ===== verification/Browser.thy ===== *)
theory Browser
  imports App
begin

text \<open>
  The browser around the component of \<open>src/src/App.tsx\<close>: the hidden
  \<open><input type="file">\<close> reached through \<open>fileInputRef\<close> (lines 15 and 100--114) and
  the effect that scrolls the newest message into view (lines 16 and 85--87). The input
  keeps the path of the file last chosen (\<open>file_value\<close>), since the component never
  resets it, and the browser fires \<open>change\<close>, and so \<open>handleFileUpload\<close>, only when the
  choice differs from it. The effect runs after a render in which \<open>messages\<close> changed;
  \<open>scrolled_to\<close> is the length of the transcript it last scrolled to the end of. Every
  other event is an event of \<open>App\<close>, run by \<open>app_exec\<close>.
\<close>

record dom_state =
  app :: app_state
  file_value :: "string option"
  scrolled_to :: nat

definition dom_init :: dom_state where
  "dom_init = \<lparr>app = app_init, file_value = None, scrolled_to = 0\<rparr>"

text \<open>
  A user's or a promise's event: the upload button clicked and a file chosen in the
  dialog, by its path; or an event of the component other than a file choice.
\<close>

datatype ui_event = PickFile string js_file | AppEvent app_event

text \<open>\<open>useEffect(() => messagesEndRef.current?.scrollIntoView(...), [messages])\<close>.\<close>

definition scroll_effect :: "message list \<Rightarrow> dom_state \<Rightarrow> dom_state" where
  "scroll_effect before d =
     (if messages (app d) \<noteq> before then d\<lparr>scrolled_to := length (messages (app d))\<rparr> else d)"

fun ui_exec :: "dom_state \<Rightarrow> ui_event \<Rightarrow> dom_state option" where
  "ui_exec d (PickFile path f) =
     (if upload_button_disabled (app d) then None
      else if file_value d = Some path then Some d
      else map_option (\<lambda>a. scroll_effect (messages (app d)) (d\<lparr>app := a, file_value := Some path\<rparr>))
             (app_exec (app d) (ChooseFile (Some f))))"
| "ui_exec d (AppEvent e) =
     (case e of
        ChooseFile _ \<Rightarrow> None
      | _ \<Rightarrow> map_option (\<lambda>a. scroll_effect (messages (app d)) (d\<lparr>app := a\<rparr>)) (app_exec (app d) e))"

fun ui_run :: "dom_state \<Rightarrow> ui_event list \<Rightarrow> dom_state option" where
  "ui_run d [] = Some d"
| "ui_run d (e # es) = (case ui_exec d e of None \<Rightarrow> None | Some d' \<Rightarrow> ui_run d' es)"

inductive ui_reachable :: "dom_state \<Rightarrow> bool" where
  init: "ui_reachable dom_init"
| step: "ui_reachable d \<Longrightarrow> ui_exec d e = Some d' \<Longrightarrow> ui_reachable d'"

text \<open>The scenario of a file that cannot be read, and the same file chosen again.\<close>

definition broken_file :: js_file where
  "broken_file = File None"

definition retry_events :: "ui_event list" where
  "retry_events = [PickFile ''report.pdf'' broken_file, AppEvent (UploadSettles 0 sky_pdf)]"

definition retry_state :: dom_state where
  "retry_state =
     \<lparr>app = app_init\<lparr>messages := [bot_msg upload_error_text]\<rparr>,
      file_value = Some ''report.pdf'', scrolled_to = 1\<rparr>"

subsection \<open>Steps of the browser are steps of the component\<close>

lemma scroll_effect_app [simp]: "app (scroll_effect ms d) = app d"
  by (simp add: scroll_effect_def)

lemma scroll_effect_file_value [simp]: "file_value (scroll_effect ms d) = file_value d"
  by (simp add: scroll_effect_def)

lemma ui_exec_app_step: "ui_exec d e = Some d' \<Longrightarrow> app d' = app d \<or> app_step (app d) (app d')"
proof (cases e)
  case (PickFile path f)
  moreover assume "ui_exec d e = Some d'"
  ultimately have "d' = d \<or> app_exec (app d) (ChooseFile (Some f)) = Some (app d')"
    by (auto split: if_splits simp del: app_exec.simps)
  then show ?thesis by (blast dest: app_exec_step)
next
  case (AppEvent e')
  moreover assume "ui_exec d e = Some d'"
  ultimately have "app_exec (app d) e' = Some (app d')"
    by (auto split: app_event.splits simp del: app_exec.simps)
  then show ?thesis by (blast dest: app_exec_step)
qed

lemma ui_reachable_app: "ui_reachable d \<Longrightarrow> reachable (app d)"
proof (induction rule: ui_reachable.induct)
  case init
  then show ?case by (simp add: dom_init_def reachable.init)
next
  case (step d e d')
  then show ?case using ui_exec_app_step [OF step.hyps(2)] by (auto intro: reachable.step)
qed

lemma ui_run_reachable: "ui_reachable d \<Longrightarrow> ui_run d es = Some d' \<Longrightarrow> ui_reachable d'"
proof (induction es arbitrary: d)
  case Nil
  then show ?case by simp
next
  case (Cons e es)
  then obtain u where u: "ui_exec d e = Some u" and rest: "ui_run u es = Some d'"
    by (auto split: option.splits)
  from Cons.prems(1) u have "ui_reachable u" by (rule ui_reachable.step)
  from this rest show ?case by (rule Cons.IH)
qed

lemma retry_run: "ui_run dom_init retry_events = Some retry_state"
  by (simp add: retry_events_def retry_state_def dom_init_def app_init_def guard_defs
      handleFileUpload_def upload_result_def broken_file_def handleFileUpload_settle_def
      drop_nth_def scroll_effect_def)

lemma retry_state_reachable: "ui_reachable retry_state"
  using ui_run_reachable [OF ui_reachable.init retry_run] .

subsection \<open>The invariant of the browser layer\<close>

lemma scroll_effect_scrolled:
  "scrolled_to d = length before \<Longrightarrow> scrolled_to (scroll_effect before d) = length (messages (app d))"
  by (simp add: scroll_effect_def)

lemma app_exec_init: "app_exec app_init e = Some a \<Longrightarrow> \<exists>fl. e = ChooseFile fl"
  by (cases e) (auto simp: app_init_def guard_defs)

text \<open>
  The file input is empty only while nothing has happened: the component is still in its
  initial state, as every other control is disabled or has nothing to settle; and after
  every step the newest message has been scrolled into view.
\<close>

definition dom_inv :: "dom_state \<Rightarrow> bool" where
  "dom_inv d \<longleftrightarrow>
     (file_value d = None \<longrightarrow> app d = app_init) \<and> scrolled_to d = length (messages (app d))"

lemma dom_inv_init: "dom_inv dom_init"
  by (simp add: dom_inv_def dom_init_def app_init_def)

lemma ui_exec_inv: "ui_exec d e = Some d' \<Longrightarrow> dom_inv d \<Longrightarrow> dom_inv d'"
proof (cases e)
  case (PickFile path f)
  moreover assume "ui_exec d e = Some d'" and "dom_inv d"
  ultimately show ?thesis
    by (auto simp: dom_inv_def scroll_effect_def handleFileUpload_def split: if_splits)
next
  case (AppEvent e')
  moreover assume ex: "ui_exec d e = Some d'" and inv: "dom_inv d"
  ultimately obtain a where a: "app_exec (app d) e' = Some a"
    and d': "d' = scroll_effect (messages (app d)) (d\<lparr>app := a\<rparr>)"
    and nf: "\<forall>fl. e' \<noteq> ChooseFile fl"
    by (auto split: app_event.splits simp del: app_exec.simps)
  have "file_value d \<noteq> None"
    using inv a nf app_exec_init [of e' a] by (auto simp: dom_inv_def)
  with inv d' show ?thesis by (auto simp: dom_inv_def scroll_effect_scrolled)
qed

lemma ui_reachable_inv: "ui_reachable d \<Longrightarrow> dom_inv d"
  by (induction rule: ui_reachable.induct) (auto intro: dom_inv_init ui_exec_inv)

subsection \<open>Properties of the browser layer\<close>

text \<open>
  C29. Choosing the same file again does nothing: once any message is shown, the file
  input holds the path of a file, and choosing that path again fires no \<open>change\<close> event,
  so the state does not change, even right after ``Error processing PDF. Please try
  again.'' and even if the file can now be read.
\<close>

theorem same_file_reselect_ignored:
  assumes "ui_reachable d" and "messages (app d) \<noteq> []"
  shows "\<exists>path. file_value d = Some path \<and>
           (\<forall>f. ui_exec d (PickFile path f) = (if isLoading (app d) then None else Some d))"
proof -
  from ui_reachable_inv [OF assms(1)] assms(2) obtain path where "file_value d = Some path"
    by (cases "file_value d") (auto simp: dom_inv_def app_init_def)
  then show ?thesis by (simp add: guard_defs)
qed

theorem same_file_reselect_ignored_witness:
  "messages (app retry_state) = [bot_msg upload_error_text] \<and>
   upload_result sky_pdf sky_file = Inr ''The sky is blue.'' \<and>
   ui_exec retry_state (PickFile ''report.pdf'' sky_file) = Some retry_state"
proof -
  have ms: "messages (app retry_state) = [bot_msg upload_error_text]"
    by (simp add: retry_state_def)
  have up: "upload_result sky_pdf sky_file = Inr ''The sky is blue.''"
    by (simp add: upload_result_def sky_file_def sky_pdf_def extract_eval page_text_def
        item_str_def js_str_def js_trim_def js_is_space_def)
  from same_file_reselect_ignored [OF retry_state_reachable] ms
  obtain path where "file_value retry_state = Some path"
    and "\<forall>f. ui_exec retry_state (PickFile path f) =
           (if isLoading (app retry_state) then None else Some retry_state)"
    by auto
  then have "ui_exec retry_state (PickFile ''report.pdf'' sky_file) = Some retry_state"
    by (simp add: retry_state_def app_init_def)
  with ms up show ?thesis by simp
qed

text \<open>
  C30. A new choice starts an upload: when nothing is loading and the user chooses a file
  at a path other than the input's current one, the upload of that file is started and
  is the only operation in flight.
\<close>

theorem pick_new_file_starts_upload:
  assumes "ui_reachable d" and "\<not> isLoading (app d)" and "file_value d \<noteq> Some path"
  shows "\<exists>d'. ui_exec d (PickFile path f) = Some d' \<and> isLoading (app d') \<and>
           inflight (app d') = [AwaitUpload f] \<and> file_value d' = Some path"
proof -
  have "app_inv (app d)" using reachable_inv [OF ui_reachable_app [OF assms(1)]] .
  with assms(2) have "inflight (app d) = []" by (simp add: app_inv_def)
  with assms(2,3) show ?thesis
    by (simp add: guard_defs handleFileUpload_def scroll_effect_def)
qed

theorem pick_new_file_starts_upload_witness:
  "\<exists>d'. ui_exec dom_init (PickFile ''report.pdf'' sky_file) = Some d' \<and> isLoading (app d') \<and>
     inflight (app d') = [AwaitUpload sky_file] \<and> file_value d' = Some ''report.pdf''"
  using pick_new_file_starts_upload [OF ui_reachable.init, of "''report.pdf''" sky_file]
  by (simp add: dom_init_def app_init_def)

end
