(* ===== verification/Spec2Isabelle.thy ===== *)
theory Spec2Isabelle
  imports Session Render Prompt ExtractTrace Browser
begin

text \<open>
  \<^bold>\<open>A verification development for PDF-AI-Chatbot.\<close>

  \<^bold>\<open>The program.\<close> A browser app (\<open>src/src/App.tsx\<close>) lets a user upload a PDF, extracts
  its text with pdf.js (\<open>extractTextFromPDF\<close>, \<open>src/src/utils/pdfUtils.ts\<close>) and answers
  questions by sending the text and the question to a generative-language service
  (\<open>getAnswerFromAI\<close>, same file). The component keeps four pieces of React state
  (\<open>pdfContent\<close>, \<open>messages\<close>, \<open>question\<close>, \<open>isLoading\<close>); its two asynchronous
  handlers call the two functions and update the state when their promises settle; the
  rendered controls are disabled while a request runs or no document is held.
  \<open>src/src/components/ChatMessage.tsx\<close> renders one transcript entry; \<open>App\<close> does not use
  it and writes the same markup inline.

  \<^bold>\<open>The theories, in import order.\<close>
  \<^item> \<open>Prelude\<close>: the JavaScript built-ins the code relies on, \<open>String.prototype.trim\<close>
    (\<open>js_trim\<close>), \<open>Array.prototype.join\<close> over possibly-\<open>undefined\<close> elements
    (\<open>js_join\<close>), the falsy-string \<open>||\<close> (\<open>js_or_str\<close>), \<open>new Error\<close> (\<open>js_error\<close>),
    byte buffers as \<open>8 word list\<close>, and their lemmas (collection \<open>js_simps\<close>).
  \<^item> \<open>PdfExtract\<close>: \<open>extractTextFromPDF\<close> (\<open>pdfUtils.ts\<close> lines 13--32). The pdf.js
    document is a record of per-page text-content results (\<open>None\<close> for a rejected
    \<open>getPage\<close> or \<open>getTextContent\<close>); \<open>getDocument\<close> is a parameter. The \<open>for\<close> loop is
    \<open>extract_pages\<close>, a \<open>function\<close> whose termination is proved with the measure
    \<open>numPages + 1 - i\<close>. \<open>extract_spec\<close> is the reference reading (the trimmed join of the
    page texts by single spaces); \<open>extract_refines_spec\<close> proves the loop implements it;
    further lemmas give the error cases, the trimmed result, textless documents and
    marked-content items.
  \<^item> \<open>AiAnswer\<close>: the module-level model (\<open>genAI_model\<close>, lines 9--11), the prompt
    (\<open>ai_prompt\<close>, line 39) and \<open>getAnswerFromAI\<close> (lines 34--50). The service is a
    parameter (\<open>model.generateContent\<close>, whose response's \<open>text()\<close> either throws or
    gives text). The lemmas show the client never fails and never answers with the empty
    string, gives the fallback sentence on every error and on an empty answer, passes a
    non-empty answer through verbatim, that the prompt does not separate the context
    from the question, and that an unset API key silently turns every answer into the
    fallback sentence when the service rejects keyless requests.
  \<^item> \<open>App\<close>: the component (\<open>App.tsx\<close> lines 5--83 and the \<open>disabled\<close> attributes at
    lines 109, 153, 158). \<open>app_state\<close> holds the state hooks and the handlers suspended at
    an \<open>await\<close> (\<open>inflight\<close>). \<open>handleFileUpload\<close> and \<open>handleSubmit\<close> are the handlers up
    to their \<open>await\<close>; \<open>handleFileUpload_settle\<close> and \<open>handleSubmit_settle\<close> their
    continuations (\<open>try\<close>, \<open>catch\<close>, \<open>finally\<close>). \<open>app_exec\<close> runs one event (typing,
    choosing a file, sending, a suspended handler settling), \<open>app_step\<close> is the step
    relation in which any suspended handler may settle next with any behaviour of pdf.js or
    the service, \<open>reachable\<close> its reachable states. The invariant \<open>app_inv\<close> (one request
    at a time, the loading flag, the pending question, the shape of the transcript) is
    inductive (\<open>app_inv_inductive\<close>) and holds in every reachable state.
  \<^item> \<open>Session\<close>: an abstract specification of the chat session (document, last upload
    status, log of answered questions, question being answered) whose events carry their
    data (the asked question, the service that answers, the extracted text of a successful
    upload), with their effect \<open>session_apply\<close> and their precondition
    \<open>session_enabled\<close>. \<open>abs_session\<close> reads a session off an app state and \<open>observe\<close>
    the session event an app event amounts to; \<open>session_refinement\<close> is the functional
    refinement \<open>abs_session t = session_apply (observe s e) (abs_session s)\<close> for every
    event \<open>e\<close> the app accepts in a reachable state \<open>s\<close>.
  \<^item> \<open>Render\<close>: the page the component returns (\<open>app_render\<close>, \<open>App.tsx\<close> lines
    89--169: title, upload button, transcript, question input, send button), the
    transcript markup written inline by \<open>App\<close> and the unused component \<open>ChatMessage\<close>
    with its props record \<open>ChatMessageProps\<close>, the button labels, which read
    ``Processing...'' exactly while a request is in flight, and the stability of the
    index keys of the transcript (\<open>transcript_keys_stable\<close>).
  \<^item> \<open>Prompt\<close>: a parser of prompts (\<open>parse_prompt\<close>, splitting at the first
    \<open>Question:\<close> header) and the round-trip law: the prompt of a document text without
    a blank line parses back to the text and the question.
  \<^item> \<open>ExtractTrace\<close>: the page requests of the extraction loop (\<open>page_requests\<close>, with
    the recursion and measure of \<open>extract_pages\<close>): pages \<open>1, 2, ...\<close> in order, up to
    and including the first unreadable page, at most \<open>numPages\<close> of them, and the loop
    fails exactly when a requested page fails.
  \<^item> \<open>Browser\<close>: the browser around the component: the hidden file input, whose value
    (\<open>file_value\<close>) is never reset, so \<open>change\<close> fires only for a new path; the upload
    button that opens it; the scroll effect on \<open>messages\<close> (lines 85--87), kept only
    as the length of the transcript it last scrolled to. \<open>ui_exec\<close> runs an event of
    the page on top of \<open>app_exec\<close>, \<open>ui_reachable\<close> gives its states, whose component
    states are reachable states of \<open>App\<close>. The lemmas show that re-choosing the same
    file does nothing and that a new file starts an upload.
  \<^item> This theory: runs across the components, stated for every file, library, question
    and service (upload then ask then answer; a failed upload then a question; a textless
    upload); the document state is always a trimmed string;
    and the prompt of an extracted PDF whose items carry no line break parses back.

  \<^bold>\<open>Modelling choices.\<close> JavaScript strings are HOL strings of 8-bit characters, so
  \<open>trim\<close> strips the ECMAScript whitespace below code point 256 (tab, line feed, vertical
  tab, form feed, carriage return, space, no-break space). React state updates made in one
  handler segment are applied together at its end, as React batches them; a functional
  update (\<open>setMessages(prev => ...)\<close>) reads the state at the time the segment runs, a
  plain one overwrites. The external services are parameters quantified in the step
  relation, so the theorems hold for every behaviour of pdf.js and of the remote model. No
  fuel or bound is needed: the only loop runs over the pages and stops by its measure; all
  other control flow is straight-line.

  \<^bold>\<open>Not modelled.\<close> CSS classes of the layout containers and the smooth-scrolling
  animation (the effect is modelled by the length of the transcript it scrolled to); the
  pdf.js worker set-up (\<open>pdfUtils.ts\<close> lines 4--8), whose meaning is fixed by the bundler's
  rewriting of \<open>new URL(..., import.meta.url)\<close> and not by the sources; console logging in
  the \<open>catch\<close> blocks; a cancelled file dialog (browsers differ on whether it fires
  \<open>change\<close>); and the internals of pdf.js and of the remote model.

  \<^bold>\<open>Findings.\<close> A failed upload keeps the previous document's text while the transcript
  says the upload failed, so later questions are answered from the old document
  (\<open>stale_document_after_failed_upload\<close>); an upload replaces the transcript
  (\<open>upload_replaces_transcript\<close>); a PDF without text is reported as uploaded but no
  question can be asked (\<open>textless_upload_blocks_questions\<close>); the prompt-for-upload branch
  of \<open>handleSubmit\<close> is unreachable through the rendered controls
  (\<open>reachable_no_document_no_question\<close>) and answers blank questions with the wrong message
  (\<open>handleSubmit_blank_question\<close>); marked-content items put two spaces between words
  (\<open>extract_marked_content_double_space\<close>); the prompt does not delimit the question
  (\<open>prompt_ambiguous\<close>), though it does when the document has no blank line
  (\<open>prompt_roundtrip\<close>); after ``Error processing PDF. Please try again.'' choosing the
  same file again does nothing, as the file input's value is never cleared
  (\<open>same_file_reselect_ignored\<close>); a missing API key is indistinguishable from an
  unanswerable question (\<open>missing_key_always_fallback\<close>).

  \<^bold>\<open>Further work.\<close> Upload and question handlers without the rendered guards (a
  second event before React re-renders), and which invariants survive; React flushes the
  state of a discrete event before the next one, so the guards are modelled as exact.
\<close>

subsection \<open>Runs across the components\<close>

text \<open>
  C12. End to end, from the first render: for every file whose upload yields a non-empty
  text, every non-blank question and every behaviour of the service, choosing the file,
  its upload settling, typing the question, sending it and the answer settling leave the
  document text held, the transcript made of the upload message, the question and the
  answer the client computes from exactly that text and question, and the app idle.
\<close>

theorem upload_ask_answer:
  assumes "upload_result lib f = Inr c" and "c \<noteq> []" and "js_trim q \<noteq> []"
  shows "app_run app_init [ChooseFile (Some f), UploadSettles 0 lib, ChangeQuestion q, SubmitForm,
      AnswerSettles 0 g] =
     Some \<lparr>pdfContent = c,
           messages = [bot_msg upload_success_text, user_msg q, bot_msg (getAnswerFromAI g c q)],
           question = [], isLoading = False, inflight = []\<rparr>"
  using assms
  by (simp add: app_init_def guard_defs handleFileUpload_def handleFileUpload_settle_def
      handleSubmit_def handleSubmit_settle_def drop_nth_def)

lemma sky_upload: "upload_result sky_pdf sky_file = Inr ''The sky is blue.''"
  by (simp add: upload_result_def sky_file_def sky_pdf_def extract_eval page_text_def
      item_str_def js_str_def js_trim_def js_is_space_def)

lemma sky_question_nonblank: "js_trim sky_question \<noteq> []"
  by (simp add: sky_question_def js_trim_def js_is_space_def)

theorem upload_ask_answer_witness:
  "upload_result sky_pdf sky_file = Inr ''The sky is blue.'' \<and> js_trim sky_question \<noteq> [] \<and>
   app_run app_init [ChooseFile (Some sky_file), UploadSettles 0 sky_pdf, ChangeQuestion sky_question,
      SubmitForm, AnswerSettles 0 (\<lambda>_. Inr (GenerateContentResponse (Inr ''Blue.'')))] =
     Some \<lparr>pdfContent = ''The sky is blue.'',
           messages = [bot_msg upload_success_text, user_msg sky_question, bot_msg ''Blue.''],
           question = [], isLoading = False, inflight = []\<rparr>"
  using upload_ask_answer [OF sky_upload _ sky_question_nonblank,
      of "\<lambda>_. Inr (GenerateContentResponse (Inr ''Blue.''))"] sky_upload sky_question_nonblank
  by (simp add: getAnswerFromAI_def js_or_str_def)

text \<open>
  C14. A failed upload leaves the previous document in place: from any idle state holding a
  document, choosing a file whose upload fails, typing a non-blank question and sending it
  shows only the failure message and the question, yet the question is sent with the
  previous document's text.
\<close>

theorem stale_document_after_failed_upload:
  assumes "\<not> isLoading s" and "inflight s = []" and "pdfContent s \<noteq> []"
    and "upload_result lib f = Inl e" and "js_trim q \<noteq> []"
  shows "app_run s [ChooseFile (Some f), UploadSettles 0 lib, ChangeQuestion q, SubmitForm] =
     Some (s\<lparr>messages := [bot_msg upload_error_text, user_msg q], question := q, isLoading := True,
              inflight := [AwaitAnswer (pdfContent s) q]\<rparr>)"
  using assms
  by (simp add: guard_defs handleFileUpload_def handleFileUpload_settle_def handleSubmit_def
      drop_nth_def)

theorem stale_document_after_failed_upload_witness:
  "upload_result sky_pdf (File None) = Inl read_error \<and> js_trim ''Is it raining?'' \<noteq> [] \<and>
   app_run (app_init\<lparr>pdfContent := ''The sky is blue.'', messages := [bot_msg upload_success_text]\<rparr>)
      [ChooseFile (Some (File None)), UploadSettles 0 sky_pdf, ChangeQuestion ''Is it raining?'', SubmitForm] =
     Some (app_init\<lparr>pdfContent := ''The sky is blue.'',
                     messages := [bot_msg upload_error_text, user_msg ''Is it raining?''],
                     question := ''Is it raining?'', isLoading := True,
                     inflight := [AwaitAnswer ''The sky is blue.'' ''Is it raining?'']\<rparr>)"
proof -
  have up: "upload_result sky_pdf (File None) = Inl read_error" by (simp add: upload_result_def)
  have q: "js_trim ''Is it raining?'' \<noteq> []" by (simp add: js_trim_def js_is_space_def)
  show ?thesis
    using stale_document_after_failed_upload
      [of "app_init\<lparr>pdfContent := ''The sky is blue.'', messages := [bot_msg upload_success_text]\<rparr>",
       OF _ _ _ up q] up q
    by (simp add: app_init_def)
qed

text \<open>
  C23. A PDF whose pages all load but carry only white space is reported as uploaded
  successfully, but the document text becomes empty, so the question input is disabled and
  no question, whatever its text, can be sent.
\<close>

theorem textless_upload_blocks_questions:
  assumes "inflight s = [AwaitUpload (File (Some buf))]" and "lib buf = Some pdf"
    and "doc_pages pdf = map Some pages"
    and "\<forall>items\<in>set pages. \<forall>it\<in>set items. \<forall>c\<in>set (js_str (item_str it)). js_is_space c"
  shows "\<exists>t. app_exec s (UploadSettles 0 lib) = Some t \<and> messages t = [bot_msg upload_success_text] \<and>
           pdfContent t = [] \<and> question_input_disabled t \<and> (\<forall>q. send_button_disabled (t\<lparr>question := q\<rparr>))"
proof -
  have "upload_result lib (File (Some buf)) = Inr []"
    using assms(2,3) page_texts_blank [OF assms(4)]
    by (simp add: upload_result_def extract_unfold js_trim_all_spaces)
  with assms(1) show ?thesis
    by (simp add: drop_nth_def handleFileUpload_settle_def guard_defs)
qed

theorem textless_upload_blocks_questions_witness:
  "(\<lambda>_. Some \<lparr>doc_pages = [Some [TextItem '' '']]\<rparr>) [0x25, 0x50, 0x44, 0x46] =
     Some \<lparr>doc_pages = [Some [TextItem '' '']]\<rparr> \<and>
   (\<exists>t. app_exec (app_init\<lparr>isLoading := True, inflight := [AwaitUpload sky_file]\<rparr>)
          (UploadSettles 0 (\<lambda>_. Some \<lparr>doc_pages = [Some [TextItem '' '']]\<rparr>)) = Some t \<and>
        messages t = [bot_msg upload_success_text] \<and> pdfContent t = [] \<and> question_input_disabled t \<and>
        (\<forall>q. send_button_disabled (t\<lparr>question := q\<rparr>)))"
proof -
  have sp: "\<forall>items\<in>set [[TextItem '' '']]. \<forall>it\<in>set items. \<forall>c\<in>set (js_str (item_str it)). js_is_space c"
    by (simp add: item_str_def js_str_def js_is_space_def)
  show ?thesis
    using textless_upload_blocks_questions
      [of "app_init\<lparr>isLoading := True, inflight := [AwaitUpload sky_file]\<rparr>" "[0x25, 0x50, 0x44, 0x46]"
          "\<lambda>_. Some \<lparr>doc_pages = [Some [TextItem '' '']]\<rparr>" "\<lparr>doc_pages = [Some [TextItem '' '']]\<rparr>"
          "[[TextItem '' '']]"] sp
    by (simp add: sky_file_def)
qed

subsection \<open>The document state\<close>

lemma those_Some_map: "those xs = Some ys \<Longrightarrow> xs = map Some ys"
  by (induction xs arbitrary: ys) (auto split: option.splits)

lemma upload_result_trimmed: "upload_result g f = Inr t \<Longrightarrow> js_trimmed t"
  by (auto simp: upload_result_def extractTextFromPDF_def js_trim_trimmed split: option.splits)

lemma app_step_trimmed: "app_step s t \<Longrightarrow> js_trimmed (pdfContent s) \<Longrightarrow> js_trimmed (pdfContent t)"
  by (induction rule: app_step.induct)
     (auto simp: handleFileUpload_def handleSubmit_def handleSubmit_settle_def
        handleFileUpload_settle_def upload_result_trimmed split: option.splits sum.splits)

text \<open>
  C31. Well-formedness of the document state: in every reachable state \<open>pdfContent\<close> is
  a trimmed string (no leading or trailing white space), the type of what
  \<open>extractTextFromPDF\<close> returns, whatever pdf.js and the user do.
\<close>

theorem reachable_document_trimmed: "reachable s \<Longrightarrow> js_trimmed (pdfContent s)"
proof (induction rule: reachable.induct)
  case init
  then show ?case by (simp add: app_init_def js_trimmed_def)
next
  case (step s t)
  from step.hyps(2) step.IH show ?case by (rule app_step_trimmed)
qed

theorem reachable_document_trimmed_witness:
  "reachable sky_asking \<and> js_trimmed ''The sky is blue.''"
  using sky_asking_reachable reachable_document_trimmed [OF sky_asking_reachable]
  by (simp add: sky_asking_def)

subsection \<open>The prompt of an extracted document\<close>

lemma extract_no_break:
  assumes "extractTextFromPDF getDocument buf = Inr c" and "getDocument buf = Some pdf"
    and "\<forall>p\<in>set (doc_pages pdf). \<forall>items\<in>set_option p. \<forall>it\<in>set items.
           CHR 0x0A \<notin> set (js_str (item_str it))"
  shows "CHR 0x0A \<notin> set c"
proof -
  from assms(1,2) obtain ps where ps: "those (doc_pages pdf) = Some ps"
    and c: "c = js_trim (concat (map (\<lambda>x. page_text x @ '' '') ps))"
    by (auto simp: extract_unfold split: option.splits)
  have "\<forall>x\<in>set ps. \<forall>ch\<in>set (page_text x). ch \<noteq> CHR 0x0A"
  proof
    fix x assume "x \<in> set ps"
    with assms(3) those_Some_map [OF ps]
    have "\<forall>it\<in>set x. \<forall>ch\<in>set (js_str (item_str it)). ch \<noteq> CHR 0x0A" by auto
    then show "\<forall>ch\<in>set (page_text x). ch \<noteq> CHR 0x0A"
      unfolding page_text_def by (intro js_join_chars) auto
  qed
  then have "CHR 0x0A \<notin> set (concat (map (\<lambda>x. page_text x @ '' '') ps))" by auto
  then show ?thesis using set_js_trim [of "concat (map (\<lambda>x. page_text x @ '' '') ps)"] c
    by blast
qed

text \<open>
  C32. Round trip from the PDF to the service: when no text item of the document contains
  a line break, the text the extractor returns has no blank line, so the prompt the client
  builds from it and any question parses back to exactly that text and that question.
\<close>

theorem extracted_prompt_roundtrip:
  assumes "extractTextFromPDF getDocument buf = Inr c" and "getDocument buf = Some pdf"
    and "\<forall>p\<in>set (doc_pages pdf). \<forall>items\<in>set_option p. \<forall>it\<in>set items.
           CHR 0x0A \<notin> set (js_str (item_str it))"
  shows "parse_prompt (ai_prompt c q) = Some (c, q)"
proof -
  have "\<not> sublist (nl @ nl) c"
    using extract_no_break [OF assms] set_mono_sublist by (fastforce simp: nl_def)
  then have "split_first question_header (c @ question_header @ q @ prompt_suffix) =
      Some (c, q @ prompt_suffix)"
    by (intro split_first_append question_header_no_overlap) (simp_all add: question_header_def)
  then show ?thesis by (simp add: parse_prompt_def ai_prompt_def prompt_parts_defs suffix_def)
qed

theorem extracted_prompt_roundtrip_witness:
  "extractTextFromPDF sky_pdf [] = Inr ''The sky is blue.'' \<and>
   parse_prompt (ai_prompt ''The sky is blue.'' sky_question) = Some (''The sky is blue.'', sky_question)"
proof -
  let ?pdf = "\<lparr>doc_pages = [Some [TextItem ''The sky is blue.'']]\<rparr>"
  have ex: "extractTextFromPDF sky_pdf [] = Inr ''The sky is blue.''"
    by (simp add: sky_pdf_def extract_eval page_text_def item_str_def js_str_def js_trim_def
        js_is_space_def)
  have "parse_prompt (ai_prompt ''The sky is blue.'' sky_question) = Some (''The sky is blue.'', sky_question)"
    by (rule extracted_prompt_roundtrip [OF ex, of ?pdf]) (simp_all add: sky_pdf_def item_str_def js_str_def)
  with ex show ?thesis by simp
qed

end
